theory Spec2Isabelle
  imports Complex_Main "HOL-Library.AList"
begin

section \<open>JavaScript numbers\<close>

text \<open>
  The services compute with the \<^verbatim>\<open>number\<close> type of JavaScript. A division by zero
  does not raise there: it yields an infinity or NaN, and both propagate through later
  arithmetic and make comparisons behave specially. The model keeps that: a number is
  a finite real, the negative zero, one of the two infinities, or NaN. \<open>Fin 0\<close> is the
  positive zero. Finite arithmetic is exact: the rounding of IEEE doubles and their
  overflow to an infinity are not modelled, and a decimal literal such as \<^verbatim>\<open>1.2\<close>
  stands for the rational it names.
\<close>

datatype number = Fin real | NegZero | PosInf | NegInf | NaN

fun is_neg :: "number \<Rightarrow> bool" where
  "is_neg (Fin r) = (r < 0)"
| "is_neg NegZero = True"
| "is_neg PosInf = False"
| "is_neg NegInf = True"
| "is_neg NaN = False"

fun is_zero :: "number \<Rightarrow> bool" where
  "is_zero (Fin r) = (r = 0)"
| "is_zero NegZero = True"
| "is_zero PosInf = False"
| "is_zero NegInf = False"
| "is_zero NaN = False"

fun is_inf :: "number \<Rightarrow> bool" where
  "is_inf (Fin r) = False"
| "is_inf NegZero = False"
| "is_inf PosInf = True"
| "is_inf NegInf = True"
| "is_inf NaN = False"

text \<open>The real a finite number stands for; \<open>None\<close> for the infinities and NaN.\<close>

fun js_val :: "number \<Rightarrow> real option" where
  "js_val (Fin r) = Some r"
| "js_val NegZero = Some 0"
| "js_val PosInf = None"
| "js_val NegInf = None"
| "js_val NaN = None"

fun mag :: "number \<Rightarrow> real" where
  "mag (Fin r) = r"
| "mag NegZero = 0"
| "mag PosInf = 0"
| "mag NegInf = 0"
| "mag NaN = 0"

definition signed_zero :: "bool \<Rightarrow> number" where
  "signed_zero neg = (if neg then NegZero else Fin 0)"

definition signed_inf :: "bool \<Rightarrow> number" where
  "signed_inf neg = (if neg then NegInf else PosInf)"

definition finite_result :: "bool \<Rightarrow> real \<Rightarrow> number" where
  "finite_result neg r = (if r = 0 then signed_zero neg else Fin r)"

text \<open>\<^verbatim>\<open>x * y\<close>: the sign of the result is the exclusive or of the signs.\<close>

definition js_mul :: "number \<Rightarrow> number \<Rightarrow> number" where
  "js_mul x y =
     (if x = NaN \<or> y = NaN then NaN
      else if (is_inf x \<and> is_zero y) \<or> (is_zero x \<and> is_inf y) then NaN
      else if is_inf x \<or> is_inf y then signed_inf (is_neg x \<noteq> is_neg y)
      else finite_result (is_neg x \<noteq> is_neg y) (mag x * mag y))"

text \<open>\<^verbatim>\<open>x / y\<close>: a non-zero number over a zero is an infinity, zero over zero is NaN.\<close>

definition js_div :: "number \<Rightarrow> number \<Rightarrow> number" where
  "js_div x y =
     (if x = NaN \<or> y = NaN then NaN
      else if (is_inf x \<and> is_inf y) \<or> (is_zero x \<and> is_zero y) then NaN
      else if is_inf x \<or> is_zero y then signed_inf (is_neg x \<noteq> is_neg y)
      else if is_inf y then signed_zero (is_neg x \<noteq> is_neg y)
      else finite_result (is_neg x \<noteq> is_neg y) (mag x / mag y))"

text \<open>\<^verbatim>\<open>x + y\<close>: a sum that cancels is the positive zero.\<close>

definition js_add :: "number \<Rightarrow> number \<Rightarrow> number" where
  "js_add x y =
     (if x = NaN \<or> y = NaN then NaN
      else if is_inf x then (if is_inf y \<and> x \<noteq> y then NaN else x)
      else if is_inf y then y
      else if x = NegZero \<and> y = NegZero then NegZero
      else Fin (mag x + mag y))"

fun js_neg :: "number \<Rightarrow> number" where
  "js_neg (Fin r) = (if r = 0 then NegZero else Fin (- r))"
| "js_neg NegZero = Fin 0"
| "js_neg PosInf = NegInf"
| "js_neg NegInf = PosInf"
| "js_neg NaN = NaN"

definition js_sub :: "number \<Rightarrow> number \<Rightarrow> number" where
  "js_sub x y = js_add x (js_neg y)"

text \<open>Comparisons: every comparison with NaN is false, the two zeros are equal.\<close>

fun js_lt :: "number \<Rightarrow> number \<Rightarrow> bool" where
  "js_lt NaN y = False"
| "js_lt x NaN = False"
| "js_lt PosInf y = False"
| "js_lt x NegInf = False"
| "js_lt NegInf y = True"
| "js_lt x PosInf = True"
| "js_lt x y = (mag x < mag y)"

definition js_gt :: "number \<Rightarrow> number \<Rightarrow> bool" where
  "js_gt x y = js_lt y x"

text \<open>\<^verbatim>\<open>x === y\<close> on numbers.\<close>

fun js_eq :: "number \<Rightarrow> number \<Rightarrow> bool" where
  "js_eq NaN y = False"
| "js_eq x NaN = False"
| "js_eq PosInf y = (y = PosInf)"
| "js_eq NegInf y = (y = NegInf)"
| "js_eq x PosInf = False"
| "js_eq x NegInf = False"
| "js_eq x y = (mag x = mag y)"

definition js_le :: "number \<Rightarrow> number \<Rightarrow> bool" where
  "js_le x y = (js_lt x y \<or> js_eq x y)"

text \<open>Truthiness of a number: the zeros and NaN are falsy.\<close>

definition truthy :: "number \<Rightarrow> bool" where
  "truthy x = (\<not> is_zero x \<and> x \<noteq> NaN)"

text \<open>\<^verbatim>\<open>x || d\<close> where \<^verbatim>\<open>x\<close> is an optional number: \<^verbatim>\<open>undefined\<close> is \<open>None\<close>.\<close>

definition or_default :: "number option \<Rightarrow> number \<Rightarrow> number" where
  "or_default x d = (case x of None \<Rightarrow> d | Some n \<Rightarrow> if truthy n then n else d)"


section \<open>Metric calculator\<close>

text \<open>
  \<^verbatim>\<open>CalculationService.calculatePerformance\<close>: the guard tests the ideal cycle time
  and the unit count with \<^verbatim>\<open>=== 0\<close>, then divides.
\<close>

definition calculatePerformance :: "number \<Rightarrow> number \<Rightarrow> number \<Rightarrow> number" where
  "calculatePerformance idealCycleTime actualCycleTime totalUnits =
     (if js_eq idealCycleTime (Fin 0) \<or> js_eq totalUnits (Fin 0) then Fin 0
      else let idealTime = js_mul idealCycleTime totalUnits;
               actualTime = js_mul actualCycleTime totalUnits
           in js_mul (js_div idealTime actualTime) (Fin 100))"


section \<open>Records of the store\<close>

text \<open>
  The fields of the stored documents that the services read. Production samples and
  defect events share their location and date. A \<^verbatim>\<open>Date\<close> is its time value in
  milliseconds; an optional field is an \<open>option\<close>.
\<close>

record located =
  line :: string
  station :: "string option"
  date :: int

record oee_record = located +
  plannedProductionTime :: number
  downtime :: number
  idealCycleTime :: number
  actualCycleTime :: number
  totalUnits :: number
  goodUnits :: number
  quality :: number
  oee :: number

record scrap_record = located +
  defectType :: string
  quantity :: number

record job_card =
  startTime :: "int option"
  endTime :: "int option"

text \<open>\<^verbatim>\<open>date.getTime()\<close>\<close>

definition getTime :: "int \<Rightarrow> number" where
  "getTime d = Fin (of_int d)"

text \<open>\<^verbatim>\<open>record.station || record.line\<close>: an absent or empty station is falsy.\<close>

definition station_or_line :: "'a located_scheme \<Rightarrow> string" where
  "station_or_line r = (case station r of None \<Rightarrow> line r | Some s \<Rightarrow> if s = [] then line r else s)"

text \<open>
  \<^verbatim>\<open>CalculationService.calculateLeadTime\<close>, from the fetched completed jobs on: the
  reduction adds a duration for the jobs that have both timestamps, and the total is
  divided by \<^verbatim>\<open>jobs.length\<close>.
\<close>

definition calculateLeadTime :: "job_card list \<Rightarrow> number" where
  "calculateLeadTime jobs =
     (if length jobs = 0 then Fin 0
      else let totalLeadTime =
                 foldl (\<lambda>sum job.
                          case (endTime job, startTime job) of
                            (Some e, Some s) \<Rightarrow> js_add sum (js_sub (getTime e) (getTime s))
                          | _ \<Rightarrow> sum)
                       (Fin 0) jobs
           in js_div (js_div (js_div totalLeadTime (Fin (real (length jobs)))) (Fin 1000)) (Fin 60))"

text \<open>
  The lead time as the specification words it: the mean duration, in minutes, of the jobs
  that have both timestamps, and 0 when there is none.
\<close>

definition timed_durations :: "job_card list \<Rightarrow> real list" where
  "timed_durations jobs =
     concat (map (\<lambda>job. case (endTime job, startTime job) of
                           (Some e, Some s) \<Rightarrow> [real_of_int (e - s)]
                         | _ \<Rightarrow> []) jobs)"

definition leadTimeMinutes_spec :: "job_card list \<Rightarrow> real" where
  "leadTimeMinutes_spec jobs =
     (let ds = timed_durations jobs
      in if ds = [] then 0 else sum_list ds / real (length ds) / 1000 / 60)"


section \<open>Simulation engine\<close>

datatype error = Error string

record sim_params =
  p_line :: string
  operators :: "number option"
  shiftLength :: "number option"
  cycleTimeAdjustment :: "number option"

record sim_result =
  predictedThroughput :: number
  predictedScrap :: number
  predictedOEE :: number
  costImpact :: number

text \<open>The two divisors of \<^verbatim>\<open>AIService.runSimulation\<close>, as the source names them.\<close>

definition cycleTimeMultiplier :: "sim_params \<Rightarrow> number" where
  "cycleTimeMultiplier params = or_default (cycleTimeAdjustment params) (Fin 1)"

definition predictedCycleTime :: "oee_record \<Rightarrow> sim_params \<Rightarrow> number" where
  "predictedCycleTime baseOEE params = js_mul (idealCycleTime baseOEE) (cycleTimeMultiplier params)"

text \<open>
  \<^verbatim>\<open>AIService.runSimulation\<close>, from the result of \<^verbatim>\<open>OEE.findOne\<close> on (\<open>None\<close> is
  \<^verbatim>\<open>null\<close>). Each \<^verbatim>\<open>throw\<close> is an \<open>Inl\<close>.
\<close>

definition runSimulation :: "oee_record option \<Rightarrow> sim_params \<Rightarrow> error + sim_result" where
  "runSimulation found params =
     (case found of
        None \<Rightarrow> Inl (Error ''No historical data found for simulation'')
      | Some baseOEE \<Rightarrow>
          if \<not> truthy (idealCycleTime baseOEE) \<or> js_le (idealCycleTime baseOEE) (Fin 0)
          then Inl (Error ''Invalid ideal cycle time in historical data. Cannot perform simulation.'')
          else if js_le (predictedCycleTime baseOEE params) (Fin 0)
          then Inl (Error ''Invalid predicted cycle time. Cycle time must be greater than 0.'')
          else
            let shiftMinutes = js_mul (or_default (shiftLength params) (Fin 8)) (Fin 60);
                availableTime = js_sub shiftMinutes (downtime baseOEE);
                predictedUnits = js_div availableTime (predictedCycleTime baseOEE params);
                scrap = js_mul predictedUnits (js_sub (Fin 1) (js_div (quality baseOEE) (Fin 100)));
                predictedGoodUnits = js_sub predictedUnits scrap
            in Inr \<lparr> predictedThroughput = predictedGoodUnits,
                     predictedScrap = scrap,
                     predictedOEE = js_mul (oee baseOEE) (js_div (Fin 1) (cycleTimeMultiplier params)),
                     costImpact = js_mul scrap (Fin 50) \<rparr>)"


section \<open>Insight engine\<close>

datatype insight_type = Anomaly | Opportunity | Alert | Recommendation

datatype priority = Low | Medium | High | Critical

text \<open>
  A template literal is kept as its pieces: formatting a number as text is not
  computed, the piece records which number is formatted and how.
\<close>

datatype piece =
    Str string
  | Num number
  | ToFixed number nat
  | IsoDay int

record insight_impact =
  timeSaved :: "number option"
  impact_costImpact :: "number option"
  scrapReduction :: "number option"

record insight =
  itype :: insight_type
  title :: string
  description :: "piece list"
  priority :: priority
  impact :: "insight_impact option"
  actionable :: bool
  actionItems :: "string list option"

text \<open>
  \<^verbatim>\<open>AIService.detectCycleTimeAnomalies\<close>, from the fetched window on. The query sorts
  by date, latest first, so \<^verbatim>\<open>slice(0, 7)\<close> holds the seven most recent records.
\<close>

definition avgCycleTime :: "oee_record list \<Rightarrow> number" where
  "avgCycleTime oeeData =
     js_div (foldl (\<lambda>sum record. js_add sum (actualCycleTime record)) (Fin 0) oeeData)
            (Fin (real (length oeeData)))"

definition cycleTimeInsight :: "number \<Rightarrow> oee_record \<Rightarrow> insight" where
  "cycleTimeInsight avg record =
     \<lparr> itype = Anomaly,
       title = ''High Cycle Time at '' @ station_or_line record,
       description =
         [Str ''Cycle time is '',
          ToFixed (js_mul (js_div (js_sub (actualCycleTime record) avg) avg) (Fin 100)) 1,
          Str ''% above average''],
       priority = High,
       impact = Some \<lparr> timeSaved = Some (js_sub (actualCycleTime record) avg),
                       impact_costImpact = None, scrapReduction = None \<rparr>,
       actionable = True,
       actionItems = Some [''Review workstation setup'', ''Check for material flow issues'',
                           ''Verify operator training''] \<rparr>"

definition detectCycleTimeAnomalies :: "oee_record list \<Rightarrow> insight list" where
  "detectCycleTimeAnomalies oeeData =
     (if length oeeData < 10 then []
      else let avg = avgCycleTime oeeData;
               recentData = take 7 oeeData
           in foldl (\<lambda>insights record.
                       if js_gt (actualCycleTime record) (js_mul avg (Fin 1.2))
                       then insights @ [cycleTimeInsight avg record]
                       else insights)
                    [] recentData)"

text \<open>
  A plain object used as a dictionary. Its own properties are an association list in
  the order they were created. A value is a number, or a string: reading a key that
  the object does not own finds what \<^verbatim>\<open>Object.prototype\<close> defines under that name, a
  function (for \<^verbatim>\<open>__proto__\<close> the prototype object), which is truthy, and adding a
  number to it concatenates strings. \<open>Text\<close> stands for such a string; it starts with
  the source text of the function, or with \<^verbatim>\<open>[object Object]\<close>, so it is never
  numeric and converts to NaN.
\<close>

datatype cell = Count number | Text

definition to_number :: "cell \<Rightarrow> number" where
  "to_number v = (case v of Count n \<Rightarrow> n | Text \<Rightarrow> NaN)"

definition prototype_members :: "string list" where
  "prototype_members =
     [''constructor'', ''__defineGetter__'', ''__defineSetter__'', ''hasOwnProperty'',
      ''__lookupGetter__'', ''__lookupSetter__'', ''isPrototypeOf'', ''propertyIsEnumerable'',
      ''toString'', ''valueOf'', ''__proto__'', ''toLocaleString'']"

text \<open>
  \<open>add_count\<close> is the statement \<^verbatim>\<open>counts[key] = (counts[key] || 0) + n\<close> for a number
  \<^verbatim>\<open>n\<close>. An own number that is falsy, and a key that is found nowhere, give
  \<^verbatim>\<open>0 + n\<close>; an own string and an inherited value give a string. The assignment
  creates the property or replaces its value in place, except for \<^verbatim>\<open>__proto__\<close>,
  whose setter ignores a string.
\<close>

definition add_count :: "(string \<times> cell) list \<Rightarrow> string \<Rightarrow> number \<Rightarrow> (string \<times> cell) list" where
  "add_count counts key n =
     (let total = (case map_of counts key of
                     Some (Count c) \<Rightarrow> Count (js_add (or_default (Some c) (Fin 0)) n)
                   | Some Text \<Rightarrow> Text
                   | None \<Rightarrow> if key \<in> set prototype_members then Text
                             else Count (js_add (or_default None (Fin 0)) n))
      in if key = ''__proto__'' then counts else AList.update key total counts)"

text \<open>
  \<^verbatim>\<open>Object.entries\<close> lists the keys that are array indices first, in ascending numeric
  order, and then the other keys in the order they were created. An array index is the
  decimal numeral, without a leading zero, of a number below 4294967295.
\<close>

definition is_digit :: "char \<Rightarrow> bool" where
  "is_digit c = (48 \<le> (of_char c :: int) \<and> (of_char c :: int) \<le> 57)"

definition index_value :: "string \<Rightarrow> int" where
  "index_value s = foldl (\<lambda>v c. 10 * v + (of_char c - 48)) 0 s"

definition is_array_index :: "string \<Rightarrow> bool" where
  "is_array_index s =
     (s \<noteq> [] \<and> list_all is_digit s \<and> (length s = 1 \<or> hd s \<noteq> CHR ''0'')
      \<and> index_value s < 4294967295)"

definition object_entries :: "(string \<times> 'a) list \<Rightarrow> (string \<times> 'a) list" where
  "object_entries props =
     sort_key (\<lambda>e. index_value (fst e)) (filter (\<lambda>e. is_array_index (fst e)) props)
     @ filter (\<lambda>e. \<not> is_array_index (fst e)) props"

text \<open>
  \<^verbatim>\<open>Array.prototype.sort\<close> with a comparator is stable: an element moves behind
  exactly the elements that the comparator puts strictly before it. For a comparator
  that is a consistent order, as a difference of finite numbers is, every stable sort
  returns this list. A comparison that yields NaN counts as 0; with such comparisons
  the order of more than one element is left to the implementation, and this list
  stands for one of the orders it may return.
\<close>

fun sort_insert :: "('a \<Rightarrow> 'a \<Rightarrow> number) \<Rightarrow> 'a \<Rightarrow> 'a list \<Rightarrow> 'a list" where
  "sort_insert cmp x [] = [x]"
| "sort_insert cmp x (y # ys) =
     (if js_gt (cmp x y) (Fin 0) then y # sort_insert cmp x ys else x # y # ys)"

definition array_sort :: "('a \<Rightarrow> 'a \<Rightarrow> number) \<Rightarrow> 'a list \<Rightarrow> 'a list" where
  "array_sort cmp xs = foldr (sort_insert cmp) xs []"

text \<open>\<^verbatim>\<open>AIService.detectScrapPatterns\<close>, from the fetched window on.\<close>

definition defectCounts :: "scrap_record list \<Rightarrow> (string \<times> cell) list" where
  "defectCounts scrapData =
     foldl (\<lambda>counts record. add_count counts (defectType record) (quantity record)) [] scrapData"

definition sortedDefects :: "scrap_record list \<Rightarrow> (string \<times> cell) list" where
  "sortedDefects scrapData =
     array_sort (\<lambda>a b. js_sub (to_number (snd b)) (to_number (snd a)))
       (object_entries (defectCounts scrapData))"

definition scrapInsight :: "string \<times> number \<Rightarrow> insight" where
  "scrapInsight topDefect =
     \<lparr> itype = Opportunity,
       title = ''High Scrap Rate: '' @ fst topDefect,
       description = [Num (snd topDefect), Str '' units scrapped due to '', Str (fst topDefect)],
       priority = High,
       impact = Some \<lparr> timeSaved = None, impact_costImpact = None,
                       scrapReduction = Some (js_mul (snd topDefect) (Fin 0.5)) \<rparr>,
       actionable = True,
       actionItems = Some [''Investigate root cause'', ''Review quality control procedures'',
                           ''Consider tooling/material changes''] \<rparr>"

text \<open>
  The top entry passes the test \<^verbatim>\<open>topDefect[1] > 10\<close> only when its value is a number,
  since a string converts to NaN; the insight is built from that number.
\<close>

definition detectScrapPatterns :: "scrap_record list \<Rightarrow> insight list" where
  "detectScrapPatterns scrapData =
     (if length scrapData = 0 then []
      else case sortedDefects scrapData of
             [] \<Rightarrow> []
           | topDefect # rest \<Rightarrow>
               if js_gt (to_number (snd topDefect)) (Fin 10)
               then [scrapInsight (fst topDefect, to_number (snd topDefect))]
               else [])"

text \<open>\<^verbatim>\<open>AIService.detectDowntimePatterns\<close>, from the fetched window on.\<close>

definition downtimePercent :: "oee_record \<Rightarrow> number" where
  "downtimePercent record = js_mul (js_div (downtime record) (plannedProductionTime record)) (Fin 100)"

definition downtimeInsight :: "oee_record \<Rightarrow> insight" where
  "downtimeInsight record =
     \<lparr> itype = Alert,
       title = ''High Downtime at '' @ station_or_line record,
       description = [ToFixed (downtimePercent record) 1, Str ''% downtime on '', IsoDay (date record)],
       priority = Critical,
       impact = None,
       actionable = True,
       actionItems = Some [''Review downtime reasons'', ''Check equipment maintenance schedule'',
                           ''Investigate root causes''] \<rparr>"

definition detectDowntimePatterns :: "oee_record list \<Rightarrow> insight list" where
  "detectDowntimePatterns oeeData =
     (if length oeeData = 0 then []
      else foldl (\<lambda>insights record.
                    if js_gt (downtimePercent record) (Fin 15)
                    then insights @ [downtimeInsight record]
                    else insights)
                 [] oeeData)"


text \<open>
  The enrichment call. \<^verbatim>\<open>axios.post\<close> rejects on a network failure and on a status
  outside 2xx; otherwise it resolves with a response. Reading
  \<^verbatim>\<open>response.data.enhancedInsights\<close> raises a TypeError when the response has no data;
  \<open>Data None\<close> is a body whose field is absent or falsy, \<open>Data (Some v)\<close> one whose
  field is \<open>v\<close> (any array, the empty one too, is truthy).
\<close>

datatype response_data = NoData | Data "insight list option"

datatype post_outcome = NetworkFailure | BadStatus nat | Response response_data

definition enhanceWithExternalAI_try :: "insight list \<Rightarrow> post_outcome \<Rightarrow> error + insight list" where
  "enhanceWithExternalAI_try insights outcome =
     (case outcome of
        NetworkFailure \<Rightarrow> Inl (Error ''Network Error'')
      | BadStatus code \<Rightarrow> Inl (Error ''Request failed with status code'')
      | Response NoData \<Rightarrow> Inl (Error ''TypeError'')
      | Response (Data None) \<Rightarrow> Inr insights
      | Response (Data (Some enhancedInsights)) \<Rightarrow> Inr enhancedInsights)"

text \<open>\<^verbatim>\<open>AIService.enhanceWithExternalAI\<close>: the request inside its \<^verbatim>\<open>try\<close>.\<close>

definition enhanceWithExternalAI :: "insight list \<Rightarrow> post_outcome \<Rightarrow> error + insight list" where
  "enhanceWithExternalAI insights outcome =
     (case enhanceWithExternalAI_try insights outcome of
        Inl e \<Rightarrow> Inr insights
      | Inr r \<Rightarrow> Inr r)"

record ai_env =
  aiServiceUrl :: "string option"
  aiApiKey :: "string option"

text \<open>Truthiness of an environment variable: unset and empty are falsy.\<close>

definition is_set :: "string option \<Rightarrow> bool" where
  "is_set v = (case v of None \<Rightarrow> False | Some s \<Rightarrow> s \<noteq> [])"

text \<open>
  \<^verbatim>\<open>AIService.generateInsights\<close>. Each check awaits one query of the store, which
  either rejects or yields the fetched window; the three outcomes are arguments.
  \<open>generateInsights_try\<close> is the body of the \<^verbatim>\<open>try\<close>: it returns the array
  \<^verbatim>\<open>insights\<close> as filled so far together with its own outcome, and the
  \<^verbatim>\<open>catch\<close> returns that array.
\<close>

definition generateInsights_try ::
  "ai_env \<Rightarrow> error + oee_record list \<Rightarrow> error + scrap_record list \<Rightarrow> error + oee_record list
     \<Rightarrow> post_outcome \<Rightarrow> insight list \<times> (error + insight list)" where
  "generateInsights_try env cycleQuery scrapQuery downtimeQuery outcome =
     (case cycleQuery of
        Inl e \<Rightarrow> ([], Inl e)
      | Inr cycleData \<Rightarrow>
          let insights1 = [] @ detectCycleTimeAnomalies cycleData in
          (case scrapQuery of
             Inl e \<Rightarrow> (insights1, Inl e)
           | Inr scrapData \<Rightarrow>
               let insights2 = insights1 @ detectScrapPatterns scrapData in
               (case downtimeQuery of
                  Inl e \<Rightarrow> (insights2, Inl e)
                | Inr downtimeData \<Rightarrow>
                    let insights3 = insights2 @ detectDowntimePatterns downtimeData in
                    if is_set (aiServiceUrl env) \<and> is_set (aiApiKey env)
                    then (insights3, enhanceWithExternalAI insights3 outcome)
                    else (insights3, Inr insights3))))"

definition generateInsights ::
  "ai_env \<Rightarrow> error + oee_record list \<Rightarrow> error + scrap_record list \<Rightarrow> error + oee_record list
     \<Rightarrow> post_outcome \<Rightarrow> error + insight list" where
  "generateInsights env cycleQuery scrapQuery downtimeQuery outcome =
     (case generateInsights_try env cycleQuery scrapQuery downtimeQuery outcome of
        (insights, Inl e) \<Rightarrow> Inr insights
      | (insights, Inr r) \<Rightarrow> Inr r)"


section \<open>Notification hub\<close>

datatype notification_type = NAlert | NInfo | NWarning | NSuccess

text \<open>
  A notification without \<^verbatim>\<open>id\<close>, \<^verbatim>\<open>timestamp\<close> and \<^verbatim>\<open>read\<close> is what the
  senders are given; the stored notification extends it.
\<close>

record payload =
  n_type :: notification_type
  n_title :: string
  n_message :: "piece list"
  n_priority :: priority
  n_userId :: "string option"
  n_link :: "string option"

record notification = payload +
  n_id :: string
  n_timestamp :: int
  read :: bool

text \<open>
  \<^verbatim>\<open>NotificationService.markAsRead\<close> on the mailbox map: \<^verbatim>\<open>find\<close> yields the first
  notification with the id, and the assignment changes that one in its place.
\<close>

fun mark_first :: "string \<Rightarrow> notification list \<Rightarrow> notification list" where
  "mark_first notificationId [] = []"
| "mark_first notificationId (n # ns) =
     (if n_id n = notificationId then n\<lparr>read := True\<rparr> # ns
      else n # mark_first notificationId ns)"

definition markAsRead ::
  "(string \<rightharpoonup> notification list) \<Rightarrow> string \<Rightarrow> string \<Rightarrow> (string \<rightharpoonup> notification list)" where
  "markAsRead notifications userId notificationId =
     (case notifications userId of
        None \<Rightarrow> notifications
      | Some userNotifications \<Rightarrow>
          notifications(userId \<mapsto> mark_first notificationId userNotifications))"

text \<open>
  \<^verbatim>\<open>NotificationService.monitorAlerts\<close>, its scrap and downtime blocks from the two
  fetched lists on: the result is the list of the calls of \<^verbatim>\<open>broadcastAlert\<close>, each
  a role and a payload, in the order they are made. The third block, on the jobs in
  progress, sends to mailboxes and is not part of this development.
\<close>

definition scrapByLine :: "scrap_record list \<Rightarrow> (string \<times> cell) list" where
  "scrapByLine recentScrap =
     foldl (\<lambda>counts s. add_count counts (line s) (quantity s)) [] recentScrap"

definition scrapAlert :: "string \<times> number \<Rightarrow> payload" where
  "scrapAlert entry =
     \<lparr> n_type = NWarning,
       n_title = ''High Scrap Rate: '' @ fst entry,
       n_message = [Num (snd entry), Str '' units scrapped in the last 24 hours''],
       n_priority = High,
       n_userId = None,
       n_link = Some (''/waste-quality/scrap-overview?line='' @ fst entry) \<rparr>"

definition downtimeAlert :: "oee_record \<Rightarrow> payload" where
  "downtimeAlert sample =
     \<lparr> n_type = NAlert,
       n_title = ''High Downtime: '' @ station_or_line sample,
       n_message = [ToFixed (downtimePercent sample) 1, Str ''% downtime detected''],
       n_priority = Critical,
       n_userId = None,
       n_link = Some (''/operational-performance/oee?station=''
                      @ (case station sample of None \<Rightarrow> ''undefined'' | Some s \<Rightarrow> s)) \<rparr>"

text \<open>
  As in the Insight Engine, an entry passes \<^verbatim>\<open>quantity > 50\<close> only when its value is a
  number.
\<close>

definition monitorScrap :: "scrap_record list \<Rightarrow> (string \<times> payload) list" where
  "monitorScrap recentScrap =
     foldl (\<lambda>calls entry.
              if js_gt (to_number (snd entry)) (Fin 50)
              then calls @ [(''supervisor'', scrapAlert (fst entry, to_number (snd entry)))]
              else calls)
           [] (object_entries (scrapByLine recentScrap))"

definition monitorDowntime :: "oee_record list \<Rightarrow> (string \<times> payload) list" where
  "monitorDowntime recentOEE =
     foldl (\<lambda>calls sample.
              if js_gt (downtimePercent sample) (Fin 20)
              then calls @ [(''supervisor'', downtimeAlert sample)]
              else calls)
           [] recentOEE"

definition monitorAlerts :: "scrap_record list \<Rightarrow> oee_record list \<Rightarrow> (string \<times> payload) list" where
  "monitorAlerts recentScrap recentOEE = monitorScrap recentScrap @ monitorDowntime recentOEE"


section \<open>Lead-time route\<close>

text \<open>
  The lead-time route of the operational-performance API computes the same figure on
  its own: it filters the jobs that have both timestamps, maps each to an object whose
  \<^verbatim>\<open>leadTime\<close> is its duration in minutes (the only field kept here), and divides
  the sum by the number of the jobs it kept.
\<close>

definition leadTimes :: "job_card list \<Rightarrow> number list" where
  "leadTimes jobs =
     map (\<lambda>job. js_div (js_div (js_sub (getTime (the (endTime job))) (getTime (the (startTime job))))
                               (Fin 1000)) (Fin 60))
         (filter (\<lambda>job. endTime job \<noteq> None \<and> startTime job \<noteq> None) jobs)"

definition avgLeadTime :: "job_card list \<Rightarrow> number" where
  "avgLeadTime jobs =
     (if length (leadTimes jobs) > 0
      then js_div (foldl (\<lambda>sum lt. js_add sum lt) (Fin 0) (leadTimes jobs))
                  (Fin (real (length (leadTimes jobs))))
      else Fin 0)"


section \<open>Binary64 arithmetic\<close>

text \<open>
  The arithmetic of the sections above is exact. A JavaScript number is an IEEE 754
  binary64 value, and every operation returns the exact result rounded to the nearest
  such value, ties to the one with an even significand. This section defines that
  rounding and embeds over it the two functions whose results depend on it.

  \<^verbatim>\<open>ulp a\<close> is the distance between neighbouring binary64 values at the magnitude
  a: 2 ^ (e - 52) when a lies between 2 ^ e and 2 ^ (e + 1), not below 2 ^ (-1074) (the
  subnormal range) and not above 2 ^ 971. It is found from 2 ^ (-52) by at most 1023
  doublings or at most 1022 halvings.
\<close>

definition half_even :: "real \<Rightarrow> int" where
  "half_even q =
     (let f = \<lfloor>q\<rfloor>; d = q - of_int f
      in if d < 1 / 2 then f else if 1 / 2 < d then f + 1 else if even f then f else f + 1)"

fun ulp_up :: "nat \<Rightarrow> real \<Rightarrow> real \<Rightarrow> real" where
  "ulp_up n a u = (if n = 0 \<or> a < 2 ^ 53 * u then u else ulp_up (n - 1) a (2 * u))"

fun ulp_down :: "nat \<Rightarrow> real \<Rightarrow> real \<Rightarrow> real" where
  "ulp_down n a u = (if n = 0 \<or> 2 ^ 52 * u \<le> a then u else ulp_down (n - 1) a (u / 2))"

declare ulp_up.simps [simp del] ulp_down.simps [simp del]

definition ulp :: "real \<Rightarrow> real" where
  "ulp a = ulp_down 1022 a (ulp_up 1023 a (1 / 2 ^ 52))"

text \<open>
  The binary64 value of an exact result r whose sign is neg: a result that rounds to
  zero keeps its sign, one that rounds to 2 ^ 1024 or beyond is an infinity.
\<close>

definition double_result :: "bool \<Rightarrow> real \<Rightarrow> number" where
  "double_result neg r =
     (let a = \<bar>r\<bar>; u = ulp a; m = of_int (half_even (a / u)) * u
      in if m = 0 then signed_zero neg
         else if 2 ^ 1024 \<le> m then signed_inf neg
         else Fin (if neg then - m else m))"

text \<open>A decimal literal of the source is the binary64 value nearest to it.\<close>

definition double_of :: "real \<Rightarrow> number" where
  "double_of r = double_result (r < 0) r"

definition dbl_mul :: "number \<Rightarrow> number \<Rightarrow> number" where
  "dbl_mul x y =
     (if x = NaN \<or> y = NaN then NaN
      else if (is_inf x \<and> is_zero y) \<or> (is_zero x \<and> is_inf y) then NaN
      else if is_inf x \<or> is_inf y then signed_inf (is_neg x \<noteq> is_neg y)
      else double_result (is_neg x \<noteq> is_neg y) (mag x * mag y))"

definition dbl_div :: "number \<Rightarrow> number \<Rightarrow> number" where
  "dbl_div x y =
     (if x = NaN \<or> y = NaN then NaN
      else if (is_inf x \<and> is_inf y) \<or> (is_zero x \<and> is_zero y) then NaN
      else if is_inf x \<or> is_zero y then signed_inf (is_neg x \<noteq> is_neg y)
      else if is_inf y then signed_zero (is_neg x \<noteq> is_neg y)
      else double_result (is_neg x \<noteq> is_neg y) (mag x / mag y))"

definition dbl_add :: "number \<Rightarrow> number \<Rightarrow> number" where
  "dbl_add x y =
     (if x = NaN \<or> y = NaN then NaN
      else if is_inf x then (if is_inf y \<and> x \<noteq> y then NaN else x)
      else if is_inf y then y
      else if x = NegZero \<and> y = NegZero then NegZero
      else if mag x + mag y = 0 then Fin 0
      else double_result (mag x + mag y < 0) (mag x + mag y))"

definition dbl_sub :: "number \<Rightarrow> number \<Rightarrow> number" where
  "dbl_sub x y = dbl_add x (js_neg y)"

text \<open>\<^verbatim>\<open>AIService.runSimulation\<close> over binary64 arithmetic.\<close>

definition predictedCycleTime_double :: "oee_record \<Rightarrow> sim_params \<Rightarrow> number" where
  "predictedCycleTime_double baseOEE params =
     dbl_mul (idealCycleTime baseOEE) (cycleTimeMultiplier params)"

definition runSimulation_double :: "oee_record option \<Rightarrow> sim_params \<Rightarrow> error + sim_result" where
  "runSimulation_double found params =
     (case found of
        None \<Rightarrow> Inl (Error ''No historical data found for simulation'')
      | Some baseOEE \<Rightarrow>
          if \<not> truthy (idealCycleTime baseOEE) \<or> js_le (idealCycleTime baseOEE) (Fin 0)
          then Inl (Error ''Invalid ideal cycle time in historical data. Cannot perform simulation.'')
          else if js_le (predictedCycleTime_double baseOEE params) (Fin 0)
          then Inl (Error ''Invalid predicted cycle time. Cycle time must be greater than 0.'')
          else
            let shiftMinutes = dbl_mul (or_default (shiftLength params) (Fin 8)) (Fin 60);
                availableTime = dbl_sub shiftMinutes (downtime baseOEE);
                predictedUnits = dbl_div availableTime (predictedCycleTime_double baseOEE params);
                scrap = dbl_mul predictedUnits (dbl_sub (Fin 1) (dbl_div (quality baseOEE) (Fin 100)));
                predictedGoodUnits = dbl_sub predictedUnits scrap
            in Inr \<lparr> predictedThroughput = predictedGoodUnits,
                     predictedScrap = scrap,
                     predictedOEE = dbl_mul (oee baseOEE) (dbl_div (Fin 1) (cycleTimeMultiplier params)),
                     costImpact = dbl_mul scrap (Fin 50) \<rparr>)"

text \<open>\<^verbatim>\<open>AIService.detectCycleTimeAnomalies\<close> over binary64 arithmetic.\<close>

definition avgCycleTime_double :: "oee_record list \<Rightarrow> number" where
  "avgCycleTime_double oeeData =
     dbl_div (foldl (\<lambda>sum record. dbl_add sum (actualCycleTime record)) (Fin 0) oeeData)
             (Fin (real (length oeeData)))"

definition cycleTimeInsight_double :: "number \<Rightarrow> oee_record \<Rightarrow> insight" where
  "cycleTimeInsight_double avg record =
     \<lparr> itype = Anomaly,
       title = ''High Cycle Time at '' @ station_or_line record,
       description =
         [Str ''Cycle time is '',
          ToFixed (dbl_mul (dbl_div (dbl_sub (actualCycleTime record) avg) avg) (Fin 100)) 1,
          Str ''% above average''],
       priority = High,
       impact = Some \<lparr> timeSaved = Some (dbl_sub (actualCycleTime record) avg),
                       impact_costImpact = None, scrapReduction = None \<rparr>,
       actionable = True,
       actionItems = Some [''Review workstation setup'', ''Check for material flow issues'',
                           ''Verify operator training''] \<rparr>"

definition detectCycleTimeAnomalies_double :: "oee_record list \<Rightarrow> insight list" where
  "detectCycleTimeAnomalies_double oeeData =
     (if length oeeData < 10 then []
      else let avg = avgCycleTime_double oeeData;
               recentData = take 7 oeeData
           in foldl (\<lambda>insights record.
                       if js_gt (actualCycleTime record) (dbl_mul avg (double_of 1.2))
                       then insights @ [cycleTimeInsight_double avg record]
                       else insights)
                    [] recentData)"


section \<open>Reference quantities and sample data\<close>

text \<open>The total quantity of the defect events of one type, and of one line.\<close>

definition quantity_by_type :: "scrap_record list \<Rightarrow> string \<Rightarrow> real" where
  "quantity_by_type scrapData t =
     (\<Sum>r\<leftarrow>filter (\<lambda>r. defectType r = t) scrapData. mag (quantity r))"


text \<open>The mean cycle time of a window, over the reals.\<close>

definition mean_cycle_time :: "oee_record list \<Rightarrow> real" where
  "mean_cycle_time oeeData =
     (\<Sum>r\<leftarrow>oeeData. mag (actualCycleTime r)) / real (length oeeData)"

text \<open>A production sample with the given downtime and actual cycle time.\<close>

definition sample_oee :: "real \<Rightarrow> real \<Rightarrow> oee_record" where
  "sample_oee dt act =
     \<lparr> line = ''L1'', station = Some ''S1'', date = 0,
       plannedProductionTime = Fin 480, downtime = Fin dt, idealCycleTime = Fin 2,
       actualCycleTime = Fin act, totalUnits = Fin 200, goodUnits = Fin 190,
       quality = Fin 95, oee = Fin 68 \<rparr>"

definition sim_request :: "real \<Rightarrow> real \<Rightarrow> sim_params" where
  "sim_request hours mult =
     \<lparr> p_line = ''L1'', operators = None, shiftLength = Some (Fin hours),
       cycleTimeAdjustment = Some (Fin mult) \<rparr>"

definition defect_event :: "string \<Rightarrow> real \<Rightarrow> scrap_record" where
  "defect_event t n = \<lparr> line = ''L1'', station = None, date = 0, defectType = t, quantity = Fin n \<rparr>"

definition job_of :: "int option \<Rightarrow> int option \<Rightarrow> job_card" where
  "job_of s e = \<lparr> startTime = s, endTime = e \<rparr>"

definition note_of :: "string \<Rightarrow> bool \<Rightarrow> notification" where
  "note_of i r =
     \<lparr> n_type = NInfo, n_title = ''t'', n_message = [Str ''m''], n_priority = Low,
       n_userId = None, n_link = None, n_id = i, n_timestamp = 0, read = r \<rparr>"

definition sample_mailbox :: "string \<rightharpoonup> notification list" where
  "sample_mailbox = [''u1'' \<mapsto> [note_of ''a'' False, note_of ''b'' True, note_of ''c'' False]]"

definition configured_env :: ai_env where
  "configured_env = \<lparr> aiServiceUrl = Some ''http://enrich'', aiApiKey = Some ''key'' \<rparr>"


section \<open>Auxiliary facts\<close>

lemma js_val_mul: "js_val x = Some a \<Longrightarrow> js_val y = Some b \<Longrightarrow> js_val (js_mul x y) = Some (a * b)"
  by (cases x; cases y) (auto simp: js_mul_def finite_result_def signed_zero_def)

lemma js_val_div: "js_val x = Some a \<Longrightarrow> js_val y = Some b \<Longrightarrow> b \<noteq> 0 \<Longrightarrow> js_val (js_div x y) = Some (a / b)"
  by (cases x; cases y) (auto simp: js_div_def finite_result_def signed_zero_def)

lemma js_val_add: "js_val x = Some a \<Longrightarrow> js_val y = Some b \<Longrightarrow> js_val (js_add x y) = Some (a + b)"
  by (cases x; cases y) (auto simp: js_add_def)

lemma js_val_neg: "js_val x = Some a \<Longrightarrow> js_val (js_neg x) = Some (- a)"
  by (cases x) auto

lemma js_val_sub: "js_val x = Some a \<Longrightarrow> js_val y = Some b \<Longrightarrow> js_val (js_sub x y) = Some (a - b)"
  using js_val_add[OF _ js_val_neg, of x a y b] by (simp add: js_sub_def)

lemma js_lt_val: "js_val x = Some a \<Longrightarrow> js_val y = Some b \<Longrightarrow> js_lt x y = (a < b)"
  by (cases x; cases y) auto

lemma js_gt_val: "js_val x = Some a \<Longrightarrow> js_val y = Some b \<Longrightarrow> js_gt x y = (a > b)"
  by (simp add: js_gt_def js_lt_val)

lemma js_eq_val: "js_val x = Some a \<Longrightarrow> js_val y = Some b \<Longrightarrow> js_eq x y = (a = b)"
  by (cases x; cases y) auto

lemma js_le_val: "js_val x = Some a \<Longrightarrow> js_val y = Some b \<Longrightarrow> js_le x y = (a \<le> b)"
  by (auto simp: js_le_def js_lt_val js_eq_val)

lemma truthy_val: "js_val x = Some a \<Longrightarrow> truthy x = (a \<noteq> 0)"
  by (cases x) (auto simp: truthy_def)

lemma js_add_Fin: "js_val y = Some b \<Longrightarrow> js_add (Fin a) y = Fin (a + b)"
  by (cases y) (auto simp: js_add_def)



lemma foldl_collect:
  "foldl (\<lambda>acc x. if P x then acc @ [f x] else acc) a xs = a @ map f (filter P xs)"
  by (induction xs arbitrary: a) auto

lemma mag_val: "js_val x = Some a \<Longrightarrow> mag x = a"
  by (cases x) auto

text \<open>The number a dictionary holds under a key, 0 when it holds none.\<close>

lemma add_count_plain:
  assumes inv: "\<forall>k v. map_of counts k = Some v \<longrightarrow> v = Count (Fin (mag (to_number v)))"
    and n: "js_val n = Some b" and key: "key \<notin> set prototype_members"
  shows "\<exists>t. map_of (add_count counts key n) = (map_of counts)(key \<mapsto> Count (Fin (t + b)))
           \<and> t = (case map_of counts key of None \<Rightarrow> 0 | Some v \<Rightarrow> mag (to_number v))"
proof -
  have np: "key \<noteq> ''__proto__''" using key by (auto simp: prototype_members_def)
  show ?thesis
  proof (cases "map_of counts key")
    case None
    then show ?thesis
      using key np js_add_Fin[OF n, of 0]
      by (simp add: add_count_def update_conv' or_default_def)
  next
    case (Some v)
    with inv have "v = Count (Fin (mag (to_number v)))" by blast
    then obtain t where v: "v = Count (Fin t)" by blast
    have "or_default (Some (Fin t)) (Fin 0) = Fin t"
      by (simp add: or_default_def truthy_def)
    then have "map_of (add_count counts key n) = (map_of counts)(key \<mapsto> Count (Fin (t + b)))"
      using Some np js_add_Fin[OF n, of t] unfolding v
      by (simp add: add_count_def update_conv')
    with Some v show ?thesis by (simp add: to_number_def)
  qed
qed

lemma tally_map_of:
  assumes "\<forall>r\<in>set rs. js_val (qty r) \<noteq> None"
    and "\<forall>r\<in>set rs. key r \<notin> set prototype_members"
    and "\<forall>k v. map_of counts k = Some v \<longrightarrow> v = Count (Fin (mag (to_number v)))"
  shows "map_of (foldl (\<lambda>counts r. add_count counts (key r) (qty r)) counts rs) k
           = (if k \<in> key ` set rs
              then Some (Count (Fin ((case map_of counts k of None \<Rightarrow> 0 | Some v \<Rightarrow> mag (to_number v))
                              + (\<Sum>r\<leftarrow>filter (\<lambda>r. key r = k) rs. mag (qty r)))))
              else map_of counts k)"
  using assms
proof (induction rs arbitrary: counts)
  case Nil
  then show ?case by simp
next
  case (Cons r rs)
  from Cons.prems obtain b where b: "js_val (qty r) = Some b" by auto
  have kr: "key r \<notin> set prototype_members" using Cons.prems(2) by simp
  let ?c = "add_count counts (key r) (qty r)"
  from add_count_plain[OF Cons.prems(3) b kr]
  have m: "map_of ?c = (map_of counts)(key r \<mapsto>
             Count (Fin ((case map_of counts (key r) of None \<Rightarrow> 0 | Some v \<Rightarrow> mag (to_number v)) + b)))"
    by auto
  have fv: "\<forall>k v. map_of ?c k = Some v \<longrightarrow> v = Count (Fin (mag (to_number v)))"
    unfolding m using Cons.prems(3) by (auto simp: to_number_def)
  have rest: "\<forall>r\<in>set rs. js_val (qty r) \<noteq> None" "\<forall>r\<in>set rs. key r \<notin> set prototype_members"
    using Cons.prems(1,2) by simp_all
  have none: "(\<Sum>r\<leftarrow>filter (\<lambda>r. key r = k) rs. mag (qty r)) = 0" if "k \<notin> key ` set rs"
  proof -
    from that have "filter (\<lambda>r. key r = k) rs = []" by (auto simp: filter_empty_conv)
    then show ?thesis by simp
  qed
  show ?case
    using Cons.IH[OF rest fv] m none mag_val[OF b]
    by (auto simp: to_number_def)
qed

lemma tally_distinct:
  "distinct (map fst counts) \<Longrightarrow>
   distinct (map fst (foldl (\<lambda>counts r. add_count counts (key r) (qty r)) counts rs))"
  by (induction rs arbitrary: counts) (auto simp: add_count_def Let_def distinct_update)

lemma tally_entries:
  assumes "\<forall>r\<in>set rs. js_val (qty r) \<noteq> None"
    and "\<forall>r\<in>set rs. key r \<notin> set prototype_members"
  shows "set (foldl (\<lambda>counts r. add_count counts (key r) (qty r)) [] rs)
           = (\<lambda>k. (k, Count (Fin (\<Sum>r\<leftarrow>filter (\<lambda>r. key r = k) rs. mag (qty r))))) ` key ` set rs"
proof -
  let ?res = "foldl (\<lambda>counts r. add_count counts (key r) (qty r)) [] rs"
  have d: "distinct (map fst ?res)" by (rule tally_distinct) simp
  have m: "map_of ?res k = (if k \<in> key ` set rs
              then Some (Count (Fin (\<Sum>r\<leftarrow>filter (\<lambda>r. key r = k) rs. mag (qty r)))) else None)" for k
    using tally_map_of[OF assms, of "[]" k] by simp
  have "(k, v) \<in> set ?res \<longleftrightarrow>
          (k, v) \<in> (\<lambda>k. (k, Count (Fin (\<Sum>r\<leftarrow>filter (\<lambda>r. key r = k) rs. mag (qty r))))) ` key ` set rs" for k v
    using map_of_eq_Some_iff[OF d, of k v] m[of k] by (auto split: if_splits)
  then show ?thesis by auto
qed

lemma set_object_entries: "set (object_entries props) = set props"
  by (auto simp: object_entries_def)





lemma set_sort_insert: "set (sort_insert cmp x ys) = insert x (set ys)"
  by (induction ys) auto

lemma set_array_sort: "set (array_sort cmp xs) = set xs"
  unfolding array_sort_def by (induction xs) (auto simp: set_sort_insert)

lemma descending_test:
  "js_gt (js_sub (Fin b) (Fin a)) (Fin 0) = (a < b)"
  by (auto simp: js_gt_def js_sub_def js_add_def)

lemma sorted_sort_insert:
  assumes "sorted_wrt (\<lambda>a b. mag (to_number (snd b)) \<le> mag (to_number (snd a))) ys"
    and "\<forall>e\<in>set (x # ys). to_number (snd e) = Fin (mag (to_number (snd e)))"
  shows "sorted_wrt (\<lambda>a b. mag (to_number (snd b)) \<le> mag (to_number (snd a)))
           (sort_insert (\<lambda>a b. js_sub (to_number (snd b)) (to_number (snd a))) x ys)"
  using assms
proof (induction ys)
  case Nil
  then show ?case by simp
next
  case (Cons y ys)
  have t: "js_gt (js_sub (to_number (snd y)) (to_number (snd x))) (Fin 0) = (mag (to_number (snd x)) < mag (to_number (snd y)))"
    using Cons.prems(2) descending_test[of "mag (to_number (snd y))" "mag (to_number (snd x))"] by simp
  show ?case
  proof (cases "mag (to_number (snd x)) < mag (to_number (snd y))")
    case True
    have "sorted_wrt (\<lambda>a b. mag (to_number (snd b)) \<le> mag (to_number (snd a))) (sort_insert (\<lambda>a b. js_sub (to_number (snd b)) (to_number (snd a))) x ys)"
      using Cons by simp
    with True t Cons.prems(1) show ?thesis by (auto simp: set_sort_insert)
  next
    case False
    with t Cons.prems(1) show ?thesis by auto
  qed
qed

lemma sorted_array_sort:
  "\<forall>e\<in>set xs. to_number (snd e) = Fin (mag (to_number (snd e))) \<Longrightarrow>
   sorted_wrt (\<lambda>a b. mag (to_number (snd b)) \<le> mag (to_number (snd a))) (array_sort (\<lambda>a b. js_sub (to_number (snd b)) (to_number (snd a))) xs)"
proof (induction xs)
  case Nil
  then show ?case by (simp add: array_sort_def)
next
  case (Cons x xs)
  have ih: "sorted_wrt (\<lambda>a b. mag (to_number (snd b)) \<le> mag (to_number (snd a))) (array_sort (\<lambda>a b. js_sub (to_number (snd b)) (to_number (snd a))) xs)"
    using Cons by simp
  have "\<forall>e\<in>set (x # array_sort (\<lambda>a b. js_sub (to_number (snd b)) (to_number (snd a))) xs). to_number (snd e) = Fin (mag (to_number (snd e)))"
    using Cons.prems by (simp add: set_array_sort)
  from sorted_sort_insert[OF ih this] show ?case by (simp add: array_sort_def)
qed

lemma top_of_sorted:
  assumes "\<forall>e\<in>set xs. to_number (snd e) = Fin (mag (to_number (snd e)))" "xs \<noteq> []"
  shows "\<exists>top rest. array_sort (\<lambda>a b. js_sub (to_number (snd b)) (to_number (snd a))) xs = top # rest
           \<and> top \<in> set xs \<and> (\<forall>e\<in>set xs. mag (to_number (snd e)) \<le> mag (to_number (snd top)))"
proof -
  let ?s = "array_sort (\<lambda>a b. js_sub (to_number (snd b)) (to_number (snd a))) xs"
  have "set ?s = set xs" by (rule set_array_sort)
  with assms(2) obtain top rest where tr: "?s = top # rest" by (cases ?s) auto
  have "sorted_wrt (\<lambda>a b. mag (to_number (snd b)) \<le> mag (to_number (snd a))) ?s" by (rule sorted_array_sort[OF assms(1)])
  with tr have "\<forall>e\<in>set rest. mag (to_number (snd e)) \<le> mag (to_number (snd top))" by simp
  moreover have "set xs = insert top (set rest)" using \<open>set ?s = set xs\<close> tr by simp
  ultimately show ?thesis using tr by auto
qed

lemma defectCounts_entries:
  assumes "\<forall>r\<in>set scrapData. js_val (quantity r) \<noteq> None"
    and "\<forall>r\<in>set scrapData. defectType r \<notin> set prototype_members"
  shows "set (defectCounts scrapData)
           = (\<lambda>t. (t, Count (Fin (quantity_by_type scrapData t)))) ` defectType ` set scrapData"
  unfolding defectCounts_def quantity_by_type_def by (rule tally_entries[OF assms])


lemma mark_first_absent: "notificationId \<notin> n_id ` set ns \<Longrightarrow> mark_first notificationId ns = ns"
  by (induction ns) auto

lemma mark_first_read:
  "find (\<lambda>n. n_id n = notificationId) ns = Some n \<Longrightarrow> read n \<Longrightarrow> mark_first notificationId ns = ns"
  by (induction ns) (auto split: if_splits)

lemma mark_first_idem: "mark_first notificationId (mark_first notificationId ns) = mark_first notificationId ns"
  by (induction ns) auto

lemma mark_first_length: "length (mark_first notificationId ns) = length ns"
  by (induction ns) auto

lemma mark_first_nth:
  "i < length ns \<Longrightarrow>
   mark_first notificationId ns ! i = ns ! i
   \<or> (n_id (ns ! i) = notificationId \<and> mark_first notificationId ns ! i = (ns ! i)\<lparr>read := True\<rparr>)"
proof (induction ns arbitrary: i)
  case Nil
  then show ?case by simp
next
  case (Cons n ns)
  then show ?case by (cases i) auto
qed

lemma mark_first_find:
  "find (\<lambda>n. n_id n = notificationId) ns = Some n \<Longrightarrow>
   \<exists>i<length ns. ns ! i = n \<and> (\<forall>j<i. n_id (ns ! j) \<noteq> notificationId)
      \<and> mark_first notificationId ns = ns[i := n\<lparr>read := True\<rparr>]"
proof (induction ns)
  case Nil
  then show ?case by simp
next
  case (Cons m ns)
  show ?case
  proof (cases "n_id m = notificationId")
    case True
    with Cons.prems have "m = n" by simp
    with True show ?thesis by (intro exI[of _ 0]) simp
  next
    case False
    with Cons.prems have "find (\<lambda>n. n_id n = notificationId) ns = Some n" by simp
    from Cons.IH[OF this] obtain i where i: "i < length ns" "ns ! i = n"
      "\<forall>j<i. n_id (ns ! j) \<noteq> notificationId"
      "mark_first notificationId ns = ns[i := n\<lparr>read := True\<rparr>]" by blast
    have "\<forall>j<Suc i. n_id ((m # ns) ! j) \<noteq> notificationId"
      using False i(3) by (auto simp: nth_Cons split: nat.splits)
    with False i show ?thesis by (intro exI[of _ "Suc i"]) simp
  qed
qed

text \<open>
  On jobs that all have both timestamps, \<^verbatim>\<open>calculateLeadTime\<close> is the mean duration in
  minutes.
\<close>

lemma timed_fold:
  assumes "\<forall>j\<in>set jobs. startTime j \<noteq> None \<and> endTime j \<noteq> None"
  shows "foldl (\<lambda>sum job.
                  case (endTime job, startTime job) of
                    (Some e, Some s) \<Rightarrow> js_add sum (js_sub (getTime e) (getTime s))
                  | _ \<Rightarrow> sum)
               (Fin a) jobs = Fin (a + sum_list (timed_durations jobs))
         \<and> length (timed_durations jobs) = length jobs"
  using assms
proof (induction jobs arbitrary: a)
  case Nil
  then show ?case by (simp add: timed_durations_def)
next
  case (Cons j jobs)
  from Cons.prems obtain s e where se: "startTime j = Some s" "endTime j = Some e" by auto
  have step: "js_add (Fin a) (js_sub (getTime e) (getTime s)) = Fin (a + real_of_int (e - s))"
    by (simp add: getTime_def js_sub_def js_add_def)
  have td: "timed_durations (j # jobs) = real_of_int (e - s) # timed_durations jobs"
    using se by (simp add: timed_durations_def)
  from Cons.IH[of "a + real_of_int (e - s)"] Cons.prems
  show ?case unfolding td using se step by (simp add: add.assoc)
qed

lemma calculateLeadTime_timed_jobs:
  assumes "\<forall>j\<in>set jobs. startTime j \<noteq> None \<and> endTime j \<noteq> None"
  shows "js_val (calculateLeadTime jobs) = Some (leadTimeMinutes_spec jobs)"
proof (cases "jobs = []")
  case True
  then show ?thesis
    by (simp add: calculateLeadTime_def leadTimeMinutes_spec_def timed_durations_def)
next
  case False
  note f = timed_fold[OF assms, of 0]
  have len: "length (timed_durations jobs) = length jobs" using f by simp
  have ne: "timed_durations jobs \<noteq> []" using len False by auto
  have n0: "real (length jobs) \<noteq> 0" using False by simp
  have "js_val (js_div (js_div (js_div (Fin (sum_list (timed_durations jobs))) (Fin (real (length jobs))))
                  (Fin 1000)) (Fin 60))
          = Some (sum_list (timed_durations jobs) / real (length jobs) / 1000 / 60)"
    using False by (intro js_val_div) simp_all
  then show ?thesis
    using f False ne len by (simp add: calculateLeadTime_def leadTimeMinutes_spec_def Let_def)
qed


subsection \<open>Binary64 evaluation\<close>

text \<open>Evaluating one rounding: the spacing and the rounded multiple are given and checked.\<close>

lemma double_resultI:
  assumes "ulp \<bar>r\<bar> = u" "half_even (\<bar>r\<bar> / u) = n" "n \<noteq> 0" "0 < u"
    "of_int n * u < (2::real) ^ 1024" "v = (if neg then - (of_int n * u) else of_int n * u)"
  shows "double_result neg r = Fin v"
  using assms by (simp add: double_result_def Let_def)

lemma js_gt_zero: "js_gt x (Fin 0) \<Longrightarrow> truthy x \<and> \<not> js_le x (Fin 0)"
  by (cases x) (auto simp: js_gt_def truthy_def js_le_def)

lemma sample_fields:
  "idealCycleTime (sample_oee d a) = Fin 2" "downtime (sample_oee d a) = Fin d"
  "quality (sample_oee d a) = Fin 95" "oee (sample_oee d a) = Fin 68"
  "actualCycleTime (sample_oee d a) = Fin a"
  by (simp_all add: sample_oee_def)

lemma request_fields:
  "h \<noteq> 0 \<Longrightarrow> or_default (shiftLength (sim_request h m)) (Fin 8) = Fin h"
  "m \<noteq> 0 \<Longrightarrow> cycleTimeMultiplier (sim_request h m) = Fin m"
  by (simp_all add: sim_request_def cycleTimeMultiplier_def or_default_def truthy_def)


lemma runSimulation_double_returns:
  assumes h: "js_gt (idealCycleTime baseOEE) (Fin 0)
      \<and> js_gt (predictedCycleTime_double baseOEE params) (Fin 0)"
  shows "runSimulation_double (Some baseOEE) params
        = Inr \<lparr> predictedThroughput =
                 dbl_sub (dbl_div (dbl_sub (dbl_mul (or_default (shiftLength params) (Fin 8)) (Fin 60))
                                           (downtime baseOEE))
                                  (predictedCycleTime_double baseOEE params))
                         (dbl_mul (dbl_div (dbl_sub (dbl_mul (or_default (shiftLength params) (Fin 8)) (Fin 60))
                                                    (downtime baseOEE))
                                           (predictedCycleTime_double baseOEE params))
                                  (dbl_sub (Fin 1) (dbl_div (quality baseOEE) (Fin 100)))),
               predictedScrap =
                 dbl_mul (dbl_div (dbl_sub (dbl_mul (or_default (shiftLength params) (Fin 8)) (Fin 60))
                                           (downtime baseOEE))
                                  (predictedCycleTime_double baseOEE params))
                         (dbl_sub (Fin 1) (dbl_div (quality baseOEE) (Fin 100))),
               predictedOEE = dbl_mul (oee baseOEE) (dbl_div (Fin 1) (cycleTimeMultiplier params)),
               costImpact =
                 dbl_mul (dbl_mul (dbl_div (dbl_sub (dbl_mul (or_default (shiftLength params) (Fin 8)) (Fin 60))
                                                    (downtime baseOEE))
                                           (predictedCycleTime_double baseOEE params))
                                  (dbl_sub (Fin 1) (dbl_div (quality baseOEE) (Fin 100))))
                         (Fin 50) \<rparr>"
proof -
  from h js_gt_zero[of "idealCycleTime baseOEE"]
  have a: "truthy (idealCycleTime baseOEE)" "\<not> js_le (idealCycleTime baseOEE) (Fin 0)"
    by simp_all
  from h js_gt_zero[of "predictedCycleTime_double baseOEE params"]
  have b: "\<not> js_le (predictedCycleTime_double baseOEE params) (Fin 0)" by simp
  show ?thesis using a b by (simp add: runSimulation_double_def Let_def)
qed

lemma detectCycleTimeAnomalies_double_filter:
  "detectCycleTimeAnomalies_double oeeData =
     (if length oeeData < 10 then []
      else map (cycleTimeInsight_double (avgCycleTime_double oeeData))
             (filter (\<lambda>r. js_gt (actualCycleTime r)
                                 (dbl_mul (avgCycleTime_double oeeData) (double_of 1.2)))
                (take 7 oeeData)))"
  by (simp add: detectCycleTimeAnomalies_double_def Let_def foldl_collect)


section \<open>The claims\<close>

subsection \<open>C1: thresholds of the periodic monitor\<close>





subsection \<open>C2: preconditions of the simulation\<close>





subsection \<open>C3: the projection of the simulation\<close>

text \<open>
  Claim C3 gives the results of the simulation as exact quotients and products, and for
  the baseline with ideal cycle time 2, downtime 30, quality 95 and OEE 68, a shift of
  8 hours and multiplier 1 the values 11.25, 213.75, 68 and 562.5. The program computes
  in binary64: \<^verbatim>\<open>1 - 95/100\<close> is not 0.05 there, and the predicted scrap of the example
  is 11.25 + 6 / 2 ^ 49, printed 11.25000000000001, and the cost impact
  562.5 + 5 / 2 ^ 43, printed 562.5000000000006.
\<close>

theorem runSimulation_example_is_rounded:
  "runSimulation_double (Some (sample_oee 30 2)) (sim_request 8 1)
     = Inr \<lparr> predictedThroughput = Fin 213.75, predictedScrap = Fin (11.25 + 6 / 2 ^ 49),
             predictedOEE = Fin 68, costImpact = Fin (562.5 + 5 / 2 ^ 43) \<rparr>
   \<and> runSimulation_double (Some (sample_oee 30 2)) (sim_request 8 1)
     \<noteq> Inr \<lparr> predictedThroughput = Fin 213.75, predictedScrap = Fin 11.25,
             predictedOEE = Fin 68, costImpact = Fin 562.5 \<rparr>"
proof -
  have s1: "dbl_mul (Fin 8) (Fin 60) = Fin 480"
    by (simp add: dbl_mul_def, rule double_resultI[where u="(1 / 17592186044416)" and n="8444249301319680"];
        simp add: ulp_def ulp_up.simps ulp_down.simps half_even_def Let_def)
  have s2: "dbl_sub (Fin 480) (Fin 30) = Fin 450"
    by (simp add: dbl_sub_def dbl_add_def, rule double_resultI[where u="(1 / 17592186044416)" and n="7916483719987200"];
        simp add: ulp_def ulp_up.simps ulp_down.simps half_even_def Let_def)
  have s3: "dbl_mul (Fin 2) (Fin 1) = Fin 2"
    by (simp add: dbl_mul_def, rule double_resultI[where u="(1 / 2251799813685248)" and n="4503599627370496"];
        simp add: ulp_def ulp_up.simps ulp_down.simps half_even_def Let_def)
  have s4: "dbl_div (Fin 450) (Fin 2) = Fin 225"
    by (simp add: dbl_div_def, rule double_resultI[where u="(1 / 35184372088832)" and n="7916483719987200"];
        simp add: ulp_def ulp_up.simps ulp_down.simps half_even_def Let_def)
  have s5: "dbl_div (Fin 95) (Fin 100) = Fin (4278419646001971 / 4503599627370496)"
    by (simp add: dbl_div_def, rule double_resultI[where u="(1 / 9007199254740992)" and n="8556839292003942"];
        simp add: ulp_def ulp_up.simps ulp_down.simps half_even_def Let_def)
  have s6: "dbl_sub (Fin 1) (Fin (4278419646001971 / 4503599627370496)) = Fin (225179981368525 / 4503599627370496)"
    by (simp add: dbl_sub_def dbl_add_def, rule double_resultI[where u="(1 / 144115188075855872)" and n="7205759403792800"];
        simp add: ulp_def ulp_up.simps ulp_down.simps half_even_def Let_def)
  have s7: "dbl_mul (Fin 225) (Fin (225179981368525 / 4503599627370496)) = Fin (3166593487994883 / 281474976710656)"
    by (simp add: dbl_mul_def, rule double_resultI[where u="(1 / 562949953421312)" and n="6333186975989766"];
        simp add: ulp_def ulp_up.simps ulp_down.simps half_even_def Let_def)
  have s8: "dbl_sub (Fin 225) (Fin (3166593487994883 / 281474976710656)) = Fin (855 / 4)"
    by (simp add: dbl_sub_def dbl_add_def, rule double_resultI[where u="(1 / 35184372088832)" and n="7520659533987840"];
        simp add: ulp_def ulp_up.simps ulp_down.simps half_even_def Let_def)
  have s9: "dbl_div (Fin 1) (Fin 1) = Fin 1"
    by (simp add: dbl_div_def, rule double_resultI[where u="(1 / 4503599627370496)" and n="4503599627370496"];
        simp add: ulp_def ulp_up.simps ulp_down.simps half_even_def Let_def)
  have s10: "dbl_mul (Fin 68) (Fin 1) = Fin 68"
    by (simp add: dbl_mul_def, rule double_resultI[where u="(1 / 70368744177664)" and n="4785074604081152"];
        simp add: ulp_def ulp_up.simps ulp_down.simps half_even_def Let_def)
  have s11: "dbl_mul (Fin (3166593487994883 / 281474976710656)) (Fin 50) = Fin (4947802324992005 / 8796093022208)"
    by (simp add: dbl_mul_def, rule double_resultI[where u="(1 / 8796093022208)" and n="4947802324992005"];
        simp add: ulp_def ulp_up.simps ulp_down.simps half_even_def Let_def)
  have pretty: "Fin (855 / 4) = Fin 213.75" "Fin (3166593487994883 / 281474976710656) = Fin (11.25 + 6 / 2 ^ 49)"
    "Fin (4947802324992005 / 8796093022208) = Fin (562.5 + 5 / 2 ^ 43)"
    by simp_all
  have pct: "predictedCycleTime_double (sample_oee 30 2) (sim_request 8 1) = Fin 2"
    by (simp add: predictedCycleTime_double_def sample_fields request_fields s3)
  have "runSimulation_double (Some (sample_oee 30 2)) (sim_request 8 1)
     = Inr \<lparr> predictedThroughput = Fin (855 / 4), predictedScrap = Fin (3166593487994883 / 281474976710656),
             predictedOEE = Fin 68, costImpact = Fin (4947802324992005 / 8796093022208) \<rparr>"
    by (simp add: runSimulation_double_def pct sample_fields request_fields truthy_def js_le_def Let_def)
       (simp only: s1 s2 s3 s4 s5 s6 s7 s8 s9 s10 s11)
  then have r: "runSimulation_double (Some (sample_oee 30 2)) (sim_request 8 1)
     = Inr \<lparr> predictedThroughput = Fin 213.75, predictedScrap = Fin (11.25 + 6 / 2 ^ 49),
             predictedOEE = Fin 68, costImpact = Fin (562.5 + 5 / 2 ^ 43) \<rparr>"
    by (simp only: pretty)
  have n: "runSimulation_double (Some (sample_oee 30 2)) (sim_request 8 1)
     \<noteq> Inr \<lparr> predictedThroughput = Fin 213.75, predictedScrap = Fin 11.25,
             predictedOEE = Fin 68, costImpact = Fin 562.5 \<rparr>"
    unfolding r by simp
  show ?thesis by (intro conjI; fact)
qed

text \<open>
  Claim C3, amended: whenever the baseline's ideal cycle time is greater than 0 and the
  adjusted cycle time, the binary64 product of the ideal cycle time and the effective
  multiplier, is greater than 0, the simulation returns, and its results are the
  claim's formulas with every operation rounded to binary64: shiftMinutes = shift
  length * 60 (the default 8 for an absent or zero shift length), available time =
  shiftMinutes - downtime, predicted units = available time / adjusted cycle time,
  predicted scrap = units * (1 - quality/100), predicted throughput = units - scrap,
  predicted OEE = baseline OEE * (1/multiplier), cost impact = scrap * 50. For the
  baseline and request of the claim the results are throughput 213.75, scrap
  11.25 + 6 / 2 ^ 49, OEE 68 and cost impact 562.5 + 5 / 2 ^ 43.
\<close>

theorem runSimulation_double_formulas:
  "(js_gt (idealCycleTime baseOEE) (Fin 0)
    \<and> js_gt (predictedCycleTime_double baseOEE params) (Fin 0) \<longrightarrow>
      runSimulation_double (Some baseOEE) params
        = Inr \<lparr> predictedThroughput =
                 dbl_sub (dbl_div (dbl_sub (dbl_mul (or_default (shiftLength params) (Fin 8)) (Fin 60))
                                           (downtime baseOEE))
                                  (predictedCycleTime_double baseOEE params))
                         (dbl_mul (dbl_div (dbl_sub (dbl_mul (or_default (shiftLength params) (Fin 8)) (Fin 60))
                                                    (downtime baseOEE))
                                           (predictedCycleTime_double baseOEE params))
                                  (dbl_sub (Fin 1) (dbl_div (quality baseOEE) (Fin 100)))),
               predictedScrap =
                 dbl_mul (dbl_div (dbl_sub (dbl_mul (or_default (shiftLength params) (Fin 8)) (Fin 60))
                                           (downtime baseOEE))
                                  (predictedCycleTime_double baseOEE params))
                         (dbl_sub (Fin 1) (dbl_div (quality baseOEE) (Fin 100))),
               predictedOEE = dbl_mul (oee baseOEE) (dbl_div (Fin 1) (cycleTimeMultiplier params)),
               costImpact =
                 dbl_mul (dbl_mul (dbl_div (dbl_sub (dbl_mul (or_default (shiftLength params) (Fin 8)) (Fin 60))
                                                    (downtime baseOEE))
                                           (predictedCycleTime_double baseOEE params))
                                  (dbl_sub (Fin 1) (dbl_div (quality baseOEE) (Fin 100))))
                         (Fin 50) \<rparr>)
   \<and> runSimulation_double (Some (sample_oee 30 2)) (sim_request 8 1)
       = Inr \<lparr> predictedThroughput = Fin 213.75, predictedScrap = Fin (11.25 + 6 / 2 ^ 49),
               predictedOEE = Fin 68, costImpact = Fin (562.5 + 5 / 2 ^ 43) \<rparr>"
proof -
  note gen = runSimulation_double_returns
  have s1: "dbl_mul (Fin 8) (Fin 60) = Fin 480"
    by (simp add: dbl_mul_def, rule double_resultI[where u="(1 / 17592186044416)" and n="8444249301319680"];
        simp add: ulp_def ulp_up.simps ulp_down.simps half_even_def Let_def)
  have s2: "dbl_sub (Fin 480) (Fin 30) = Fin 450"
    by (simp add: dbl_sub_def dbl_add_def, rule double_resultI[where u="(1 / 17592186044416)" and n="7916483719987200"];
        simp add: ulp_def ulp_up.simps ulp_down.simps half_even_def Let_def)
  have s3: "dbl_mul (Fin 2) (Fin 1) = Fin 2"
    by (simp add: dbl_mul_def, rule double_resultI[where u="(1 / 2251799813685248)" and n="4503599627370496"];
        simp add: ulp_def ulp_up.simps ulp_down.simps half_even_def Let_def)
  have s4: "dbl_div (Fin 450) (Fin 2) = Fin 225"
    by (simp add: dbl_div_def, rule double_resultI[where u="(1 / 35184372088832)" and n="7916483719987200"];
        simp add: ulp_def ulp_up.simps ulp_down.simps half_even_def Let_def)
  have s5: "dbl_div (Fin 95) (Fin 100) = Fin (4278419646001971 / 4503599627370496)"
    by (simp add: dbl_div_def, rule double_resultI[where u="(1 / 9007199254740992)" and n="8556839292003942"];
        simp add: ulp_def ulp_up.simps ulp_down.simps half_even_def Let_def)
  have s6: "dbl_sub (Fin 1) (Fin (4278419646001971 / 4503599627370496)) = Fin (225179981368525 / 4503599627370496)"
    by (simp add: dbl_sub_def dbl_add_def, rule double_resultI[where u="(1 / 144115188075855872)" and n="7205759403792800"];
        simp add: ulp_def ulp_up.simps ulp_down.simps half_even_def Let_def)
  have s7: "dbl_mul (Fin 225) (Fin (225179981368525 / 4503599627370496)) = Fin (3166593487994883 / 281474976710656)"
    by (simp add: dbl_mul_def, rule double_resultI[where u="(1 / 562949953421312)" and n="6333186975989766"];
        simp add: ulp_def ulp_up.simps ulp_down.simps half_even_def Let_def)
  have s8: "dbl_sub (Fin 225) (Fin (3166593487994883 / 281474976710656)) = Fin (855 / 4)"
    by (simp add: dbl_sub_def dbl_add_def, rule double_resultI[where u="(1 / 35184372088832)" and n="7520659533987840"];
        simp add: ulp_def ulp_up.simps ulp_down.simps half_even_def Let_def)
  have s9: "dbl_div (Fin 1) (Fin 1) = Fin 1"
    by (simp add: dbl_div_def, rule double_resultI[where u="(1 / 4503599627370496)" and n="4503599627370496"];
        simp add: ulp_def ulp_up.simps ulp_down.simps half_even_def Let_def)
  have s10: "dbl_mul (Fin 68) (Fin 1) = Fin 68"
    by (simp add: dbl_mul_def, rule double_resultI[where u="(1 / 70368744177664)" and n="4785074604081152"];
        simp add: ulp_def ulp_up.simps ulp_down.simps half_even_def Let_def)
  have s11: "dbl_mul (Fin (3166593487994883 / 281474976710656)) (Fin 50) = Fin (4947802324992005 / 8796093022208)"
    by (simp add: dbl_mul_def, rule double_resultI[where u="(1 / 8796093022208)" and n="4947802324992005"];
        simp add: ulp_def ulp_up.simps ulp_down.simps half_even_def Let_def)
  have pretty: "Fin (855 / 4) = Fin 213.75" "Fin (3166593487994883 / 281474976710656) = Fin (11.25 + 6 / 2 ^ 49)"
    "Fin (4947802324992005 / 8796093022208) = Fin (562.5 + 5 / 2 ^ 43)"
    by simp_all
  have pct: "predictedCycleTime_double (sample_oee 30 2) (sim_request 8 1) = Fin 2"
    by (simp add: predictedCycleTime_double_def sample_fields request_fields s3)
  have hyp: "js_gt (idealCycleTime (sample_oee 30 2)) (Fin 0)
      \<and> js_gt (predictedCycleTime_double (sample_oee 30 2) (sim_request 8 1)) (Fin 0)"
    by (simp add: pct sample_fields js_gt_def)
  have "runSimulation_double (Some (sample_oee 30 2)) (sim_request 8 1)
       = Inr \<lparr> predictedThroughput = Fin (855 / 4), predictedScrap = Fin (3166593487994883 / 281474976710656),
               predictedOEE = Fin 68, costImpact = Fin (4947802324992005 / 8796093022208) \<rparr>"
    using gen[of "sample_oee 30 2" "sim_request 8 1", OF hyp]
    by (simp add: pct sample_fields request_fields)
       (simp only: s1 s2 s3 s4 s5 s6 s7 s8 s9 s10 s11)
  then have ex: "runSimulation_double (Some (sample_oee 30 2)) (sim_request 8 1)
       = Inr \<lparr> predictedThroughput = Fin 213.75, predictedScrap = Fin (11.25 + 6 / 2 ^ 49),
               predictedOEE = Fin 68, costImpact = Fin (562.5 + 5 / 2 ^ 43) \<rparr>"
    by (simp only: pretty)
  show ?thesis using gen ex by blast
qed

theorem runSimulation_double_formulas_witness:
  "js_gt (idealCycleTime (sample_oee 60 2)) (Fin 0)
   \<and> predictedCycleTime_double (sample_oee 60 2) (sim_request 10 2) = Fin 4
   \<and> js_gt (Fin 4) (Fin 0)
   \<and> runSimulation_double (Some (sample_oee 60 2)) (sim_request 10 2)
       = Inr \<lparr> predictedThroughput = Fin 128.25, predictedScrap = Fin (6.75 + 7 / 2 ^ 50),
               predictedOEE = Fin 34, costImpact = Fin (337.5 + 5 / 2 ^ 44) \<rparr>"
proof -
  have w1: "dbl_mul (Fin 10) (Fin 60) = Fin 600"
    by (simp add: dbl_mul_def, rule double_resultI[where u="(1 / 8796093022208)" and n="5277655813324800"];
        simp add: ulp_def ulp_up.simps ulp_down.simps half_even_def Let_def)
  have w2: "dbl_sub (Fin 600) (Fin 60) = Fin 540"
    by (simp add: dbl_sub_def dbl_add_def, rule double_resultI[where u="(1 / 8796093022208)" and n="4749890231992320"];
        simp add: ulp_def ulp_up.simps ulp_down.simps half_even_def Let_def)
  have w3: "dbl_mul (Fin 2) (Fin 2) = Fin 4"
    by (simp add: dbl_mul_def, rule double_resultI[where u="(1 / 1125899906842624)" and n="4503599627370496"];
        simp add: ulp_def ulp_up.simps ulp_down.simps half_even_def Let_def)
  have w4: "dbl_div (Fin 540) (Fin 4) = Fin 135"
    by (simp add: dbl_div_def, rule double_resultI[where u="(1 / 35184372088832)" and n="4749890231992320"];
        simp add: ulp_def ulp_up.simps ulp_down.simps half_even_def Let_def)
  have w5: "dbl_div (Fin 95) (Fin 100) = Fin (4278419646001971 / 4503599627370496)"
    by (simp add: dbl_div_def, rule double_resultI[where u="(1 / 9007199254740992)" and n="8556839292003942"];
        simp add: ulp_def ulp_up.simps ulp_down.simps half_even_def Let_def)
  have w6: "dbl_sub (Fin 1) (Fin (4278419646001971 / 4503599627370496)) = Fin (225179981368525 / 4503599627370496)"
    by (simp add: dbl_sub_def dbl_add_def, rule double_resultI[where u="(1 / 144115188075855872)" and n="7205759403792800"];
        simp add: ulp_def ulp_up.simps ulp_down.simps half_even_def Let_def)
  have w7: "dbl_mul (Fin 135) (Fin (225179981368525 / 4503599627370496)) = Fin (7599824371187719 / 1125899906842624)"
    by (simp add: dbl_mul_def, rule double_resultI[where u="(1 / 1125899906842624)" and n="7599824371187719"];
        simp add: ulp_def ulp_up.simps ulp_down.simps half_even_def Let_def)
  have w8: "dbl_sub (Fin 135) (Fin (7599824371187719 / 1125899906842624)) = Fin (513 / 4)"
    by (simp add: dbl_sub_def dbl_add_def, rule double_resultI[where u="(1 / 35184372088832)" and n="4512395720392704"];
        simp add: ulp_def ulp_up.simps ulp_down.simps half_even_def Let_def)
  have w9: "dbl_div (Fin 1) (Fin 2) = Fin (1 / 2)"
    by (simp add: dbl_div_def, rule double_resultI[where u="(1 / 9007199254740992)" and n="4503599627370496"];
        simp add: ulp_def ulp_up.simps ulp_down.simps half_even_def Let_def)
  have w10: "dbl_mul (Fin 68) (Fin (1 / 2)) = Fin 34"
    by (simp add: dbl_mul_def, rule double_resultI[where u="(1 / 140737488355328)" and n="4785074604081152"];
        simp add: ulp_def ulp_up.simps ulp_down.simps half_even_def Let_def)
  have w11: "dbl_mul (Fin (7599824371187719 / 1125899906842624)) (Fin 50) = Fin (5937362789990405 / 17592186044416)"
    by (simp add: dbl_mul_def, rule double_resultI[where u="(1 / 17592186044416)" and n="5937362789990405"];
        simp add: ulp_def ulp_up.simps ulp_down.simps half_even_def Let_def)
  have pretty: "Fin (513 / 4) = Fin 128.25" "Fin (7599824371187719 / 1125899906842624) = Fin (6.75 + 7 / 2 ^ 50)"
    "Fin (5937362789990405 / 17592186044416) = Fin (337.5 + 5 / 2 ^ 44)"
    by simp_all
  have pct: "predictedCycleTime_double (sample_oee 60 2) (sim_request 10 2) = Fin 4"
    by (simp add: predictedCycleTime_double_def sample_fields request_fields w3)
  have i: "js_gt (idealCycleTime (sample_oee 60 2)) (Fin 0)"
    by (simp add: sample_fields js_gt_def)
  have p: "js_gt (Fin 4) (Fin 0)" by (simp add: js_gt_def)
  have hyp: "js_gt (idealCycleTime (sample_oee 60 2)) (Fin 0)
      \<and> js_gt (predictedCycleTime_double (sample_oee 60 2) (sim_request 10 2)) (Fin 0)"
    using i p unfolding pct by simp
  have "runSimulation_double (Some (sample_oee 60 2)) (sim_request 10 2)
       = Inr \<lparr> predictedThroughput = Fin (513 / 4), predictedScrap = Fin (7599824371187719 / 1125899906842624),
               predictedOEE = Fin 34, costImpact = Fin (5937362789990405 / 17592186044416) \<rparr>"
    using runSimulation_double_formulas[of "sample_oee 60 2" "sim_request 10 2",
            THEN conjunct1, THEN mp, OF hyp]
    by (simp add: pct sample_fields request_fields)
       (simp only: w1 w2 w3 w4 w5 w6 w7 w8 w9 w10 w11)
  then have r: "runSimulation_double (Some (sample_oee 60 2)) (sim_request 10 2)
       = Inr \<lparr> predictedThroughput = Fin 128.25, predictedScrap = Fin (6.75 + 7 / 2 ^ 50),
               predictedOEE = Fin 34, costImpact = Fin (337.5 + 5 / 2 ^ 44) \<rparr>"
    by (simp only: pretty)
  show ?thesis by (intro conjI; fact)
qed


subsection \<open>C4: lead time\<close>

text \<open>
  Claim C4 says that the lead time is the mean duration, in minutes, of exactly the jobs
  that have both timestamps. The reduction of \<^verbatim>\<open>calculateLeadTime\<close> skips the jobs
  that lack one, but the total is divided by the number of all the jobs: for one job of
  two minutes and one completed job without an end time it returns 1, where the mean
  over the timed jobs is 2. The lead-time route, on the same two jobs, returns 2.
\<close>

theorem calculateLeadTime_divides_by_all_jobs:
  "calculateLeadTime [job_of (Some 0) (Some 120000), job_of (Some 0) None] = Fin 1
   \<and> leadTimeMinutes_spec [job_of (Some 0) (Some 120000), job_of (Some 0) None] = 2
   \<and> avgLeadTime [job_of (Some 0) (Some 120000), job_of (Some 0) None] = Fin 2"
  by (simp add: calculateLeadTime_def leadTimeMinutes_spec_def timed_durations_def avgLeadTime_def
        leadTimes_def job_of_def getTime_def js_sub_def js_add_def js_div_def finite_result_def)


subsection \<open>C5: cycle-time anomalies\<close>

text \<open>
  Claim C5 says that a record among the seven most recent is flagged when its actual
  cycle time exceeds 1.2 times the mean of the window. The program compares with the
  binary64 product of the binary64 average and the binary64 value nearest to 1.2, and
  near the threshold that is another test. In the window below the first cycle time is
  the binary64 value nearest to 8.4, which lies above 8.4, the second the one nearest
  to 5.6, and the other eight are 7: the mean is 7 and the first record exceeds
  1.2 * 7 = 8.4, but the rounded threshold is that record's own value, and nothing is
  flagged.
\<close>

theorem detectCycleTimeAnomalies_threshold_is_rounded:
  "double_of 8.4 = Fin (4728779608739021 / 562949953421312)
   \<and> double_of 5.6 = Fin (3152519739159347 / 562949953421312)
   \<and> length [sample_oee 30 (4728779608739021 / 562949953421312),
        sample_oee 30 (3152519739159347 / 562949953421312), sample_oee 30 7,
        sample_oee 30 7, sample_oee 30 7, sample_oee 30 7, sample_oee 30 7,
        sample_oee 30 7, sample_oee 30 7, sample_oee 30 7] = 10
   \<and> mean_cycle_time [sample_oee 30 (4728779608739021 / 562949953421312),
        sample_oee 30 (3152519739159347 / 562949953421312), sample_oee 30 7,
        sample_oee 30 7, sample_oee 30 7, sample_oee 30 7, sample_oee 30 7,
        sample_oee 30 7, sample_oee 30 7, sample_oee 30 7] = 7
   \<and> 1.2 * mean_cycle_time [sample_oee 30 (4728779608739021 / 562949953421312),
        sample_oee 30 (3152519739159347 / 562949953421312), sample_oee 30 7,
        sample_oee 30 7, sample_oee 30 7, sample_oee 30 7, sample_oee 30 7,
        sample_oee 30 7, sample_oee 30 7, sample_oee 30 7]
        < mag (actualCycleTime (sample_oee 30 (4728779608739021 / 562949953421312)))
   \<and> detectCycleTimeAnomalies_double [sample_oee 30 (4728779608739021 / 562949953421312),
        sample_oee 30 (3152519739159347 / 562949953421312), sample_oee 30 7,
        sample_oee 30 7, sample_oee 30 7, sample_oee 30 7, sample_oee 30 7,
        sample_oee 30 7, sample_oee 30 7, sample_oee 30 7] = []"
proof -
  let ?w = "[sample_oee 30 (4728779608739021 / 562949953421312),
        sample_oee 30 (3152519739159347 / 562949953421312), sample_oee 30 7,
        sample_oee 30 7, sample_oee 30 7, sample_oee 30 7, sample_oee 30 7,
        sample_oee 30 7, sample_oee 30 7, sample_oee 30 7]"
  have c1: "dbl_add (Fin 0) (Fin (4728779608739021 / 562949953421312)) = Fin (4728779608739021 / 562949953421312)"
    by (simp add: dbl_add_def, rule double_resultI[where u="(1 / 562949953421312)" and n="4728779608739021"];
        simp add: ulp_def ulp_up.simps ulp_down.simps half_even_def Let_def)
  have c2: "dbl_add (Fin (4728779608739021 / 562949953421312)) (Fin (3152519739159347 / 562949953421312)) = Fin 14"
    by (simp add: dbl_add_def, rule double_resultI[where u="(1 / 562949953421312)" and n="7881299347898368"];
        simp add: ulp_def ulp_up.simps ulp_down.simps half_even_def Let_def)
  have c3: "dbl_add (Fin 14) (Fin 7) = Fin 21"
    by (simp add: dbl_add_def, rule double_resultI[where u="(1 / 281474976710656)" and n="5910974510923776"];
        simp add: ulp_def ulp_up.simps ulp_down.simps half_even_def Let_def)
  have c4: "dbl_add (Fin 21) (Fin 7) = Fin 28"
    by (simp add: dbl_add_def, rule double_resultI[where u="(1 / 281474976710656)" and n="7881299347898368"];
        simp add: ulp_def ulp_up.simps ulp_down.simps half_even_def Let_def)
  have c5: "dbl_add (Fin 28) (Fin 7) = Fin 35"
    by (simp add: dbl_add_def, rule double_resultI[where u="(1 / 140737488355328)" and n="4925812092436480"];
        simp add: ulp_def ulp_up.simps ulp_down.simps half_even_def Let_def)
  have c6: "dbl_add (Fin 35) (Fin 7) = Fin 42"
    by (simp add: dbl_add_def, rule double_resultI[where u="(1 / 140737488355328)" and n="5910974510923776"];
        simp add: ulp_def ulp_up.simps ulp_down.simps half_even_def Let_def)
  have c7: "dbl_add (Fin 42) (Fin 7) = Fin 49"
    by (simp add: dbl_add_def, rule double_resultI[where u="(1 / 140737488355328)" and n="6896136929411072"];
        simp add: ulp_def ulp_up.simps ulp_down.simps half_even_def Let_def)
  have c8: "dbl_add (Fin 49) (Fin 7) = Fin 56"
    by (simp add: dbl_add_def, rule double_resultI[where u="(1 / 140737488355328)" and n="7881299347898368"];
        simp add: ulp_def ulp_up.simps ulp_down.simps half_even_def Let_def)
  have c9: "dbl_add (Fin 56) (Fin 7) = Fin 63"
    by (simp add: dbl_add_def, rule double_resultI[where u="(1 / 140737488355328)" and n="8866461766385664"];
        simp add: ulp_def ulp_up.simps ulp_down.simps half_even_def Let_def)
  have c10: "dbl_add (Fin 63) (Fin 7) = Fin 70"
    by (simp add: dbl_add_def, rule double_resultI[where u="(1 / 70368744177664)" and n="4925812092436480"];
        simp add: ulp_def ulp_up.simps ulp_down.simps half_even_def Let_def)
  have c11: "dbl_div (Fin 70) (Fin 10) = Fin 7"
    by (simp add: dbl_div_def, rule double_resultI[where u="(1 / 1125899906842624)" and n="7881299347898368"];
        simp add: ulp_def ulp_up.simps ulp_down.simps half_even_def Let_def)
  have c12: "double_of 1.2 = Fin (5404319552844595 / 4503599627370496)"
    by (simp add: double_of_def, rule double_resultI[where u="(1 / 4503599627370496)" and n="5404319552844595"];
        simp add: ulp_def ulp_up.simps ulp_down.simps half_even_def Let_def)
  have c13: "dbl_mul (Fin 7) (Fin (5404319552844595 / 4503599627370496)) = Fin (4728779608739021 / 562949953421312)"
    by (simp add: dbl_mul_def, rule double_resultI[where u="(1 / 562949953421312)" and n="4728779608739021"];
        simp add: ulp_def ulp_up.simps ulp_down.simps half_even_def Let_def)
  have l1: "double_of 8.4 = Fin (4728779608739021 / 562949953421312)"
    by (simp add: double_of_def, rule double_resultI[where u="(1 / 562949953421312)" and n="4728779608739021"];
        simp add: ulp_def ulp_up.simps ulp_down.simps half_even_def Let_def)
  have l2: "double_of 5.6 = Fin (3152519739159347 / 562949953421312)"
    by (simp add: double_of_def, rule double_resultI[where u="(1 / 1125899906842624)" and n="6305039478318694"];
        simp add: ulp_def ulp_up.simps ulp_down.simps half_even_def Let_def)
  have len: "length ?w = 10" by simp
  have mean: "mean_cycle_time ?w = 7" by (simp add: mean_cycle_time_def sample_fields)
  have above: "1.2 * mean_cycle_time ?w < mag (actualCycleTime (sample_oee 30 (4728779608739021 / 562949953421312)))"
    unfolding mean by (simp add: sample_fields)
  have sum: "avgCycleTime_double ?w = Fin 7"
    by (simp add: avgCycleTime_double_def sample_fields) (simp only: c1 c2 c3 c4 c5 c6 c7 c8 c9 c10 c11 c12 c13)
  have thr: "dbl_mul (avgCycleTime_double ?w) (double_of 1.2) = Fin (4728779608739021 / 562949953421312)"
    by (simp only: sum c1 c2 c3 c4 c5 c6 c7 c8 c9 c10 c11 c12 c13)
  have t1: "\<not> js_gt (actualCycleTime (sample_oee 30 (4728779608739021 / 562949953421312))) (Fin (4728779608739021 / 562949953421312))"
    by (simp add: sample_fields js_gt_def)
  have t2: "\<not> js_gt (actualCycleTime (sample_oee 30 (3152519739159347 / 562949953421312))) (Fin (4728779608739021 / 562949953421312))"
    by (simp add: sample_fields js_gt_def)
  have t3: "\<not> js_gt (actualCycleTime (sample_oee 30 7)) (Fin (4728779608739021 / 562949953421312))"
    by (simp add: sample_fields js_gt_def)
  have long: "\<not> length ?w < 10" by simp
  have "detectCycleTimeAnomalies_double ?w =
      map (cycleTimeInsight_double (avgCycleTime_double ?w))
        (filter (\<lambda>r. js_gt (actualCycleTime r) (dbl_mul (avgCycleTime_double ?w) (double_of 1.2)))
           (take 7 ?w))"
    using detectCycleTimeAnomalies_double_filter[of ?w] long by (simp only: if_False)
  also have "take 7 ?w = [sample_oee 30 (4728779608739021 / 562949953421312),
        sample_oee 30 (3152519739159347 / 562949953421312), sample_oee 30 7,
        sample_oee 30 7, sample_oee 30 7, sample_oee 30 7, sample_oee 30 7]" by simp
  finally have none: "detectCycleTimeAnomalies_double ?w = []"
    using t1 t2 t3 by (simp only: thr filter.simps if_False list.map)
  show ?thesis by (intro conjI; fact)
qed

text \<open>
  Claim C5, amended: a window of fewer than 10 samples yields no insight; otherwise the
  check yields one insight, an anomaly of high priority, for each of the first seven
  samples of the window (the most recent ones) whose actual cycle time exceeds the
  binary64 product of the window's average and the binary64 value nearest to 1.2, in
  their order, and none for any other sample. The average is the binary64 quotient of
  the sum, added from the first sample on with every sum rounded, and the number of
  samples.
\<close>

theorem detectCycleTimeAnomalies_double_flags:
  "detectCycleTimeAnomalies_double oeeData =
     (if length oeeData < 10 then []
      else map (cycleTimeInsight_double (avgCycleTime_double oeeData))
             (filter (\<lambda>r. js_gt (actualCycleTime r)
                                 (dbl_mul (avgCycleTime_double oeeData) (double_of 1.2)))
                (take 7 oeeData)))
   \<and> (\<forall>i\<in>set (detectCycleTimeAnomalies_double oeeData). itype i = Anomaly \<and> priority i = High)
   \<and> avgCycleTime_double oeeData
       = dbl_div (foldl (\<lambda>sum r. dbl_add sum (actualCycleTime r)) (Fin 0) oeeData)
                 (Fin (real (length oeeData)))"
proof -
  have eq: "detectCycleTimeAnomalies_double oeeData =
     (if length oeeData < 10 then []
      else map (cycleTimeInsight_double (avgCycleTime_double oeeData))
             (filter (\<lambda>r. js_gt (actualCycleTime r)
                                 (dbl_mul (avgCycleTime_double oeeData) (double_of 1.2)))
                (take 7 oeeData)))"
    by (rule detectCycleTimeAnomalies_double_filter)
  have props: "\<forall>i\<in>set (detectCycleTimeAnomalies_double oeeData). itype i = Anomaly \<and> priority i = High"
    unfolding eq by (auto simp: cycleTimeInsight_double_def)
  have avg: "avgCycleTime_double oeeData
       = dbl_div (foldl (\<lambda>sum r. dbl_add sum (actualCycleTime r)) (Fin 0) oeeData)
                 (Fin (real (length oeeData)))"
    by (simp add: avgCycleTime_double_def)
  show ?thesis using eq props avg by blast
qed

theorem detectCycleTimeAnomalies_double_flags_witness:
  "avgCycleTime_double [sample_oee 30 20, sample_oee 30 10, sample_oee 30 10, sample_oee 30 10,
        sample_oee 30 10, sample_oee 30 10, sample_oee 30 10, sample_oee 30 10,
        sample_oee 30 10, sample_oee 30 10] = Fin 11
   \<and> dbl_mul (Fin 11) (double_of 1.2) = Fin (3715469692580659 / 281474976710656)
   \<and> detectCycleTimeAnomalies_double [sample_oee 30 20, sample_oee 30 10, sample_oee 30 10, sample_oee 30 10,
        sample_oee 30 10, sample_oee 30 10, sample_oee 30 10, sample_oee 30 10,
        sample_oee 30 10, sample_oee 30 10]
       = [cycleTimeInsight_double (Fin 11) (sample_oee 30 20)]
   \<and> itype (cycleTimeInsight_double (Fin 11) (sample_oee 30 20)) = Anomaly
   \<and> priority (cycleTimeInsight_double (Fin 11) (sample_oee 30 20)) = High
   \<and> detectCycleTimeAnomalies_double [sample_oee 30 20, sample_oee 30 10, sample_oee 30 10, sample_oee 30 10,
        sample_oee 30 10, sample_oee 30 10, sample_oee 30 10, sample_oee 30 10,
        sample_oee 30 10] = []"
proof -
  let ?w = "[sample_oee 30 20, sample_oee 30 10, sample_oee 30 10, sample_oee 30 10,
        sample_oee 30 10, sample_oee 30 10, sample_oee 30 10, sample_oee 30 10,
        sample_oee 30 10, sample_oee 30 10]"
  let ?short = "[sample_oee 30 20, sample_oee 30 10, sample_oee 30 10, sample_oee 30 10,
        sample_oee 30 10, sample_oee 30 10, sample_oee 30 10, sample_oee 30 10,
        sample_oee 30 10]"
  have w1: "dbl_add (Fin 0) (Fin 20) = Fin 20"
    by (simp add: dbl_add_def, rule double_resultI[where u="(1 / 281474976710656)" and n="5629499534213120"];
        simp add: ulp_def ulp_up.simps ulp_down.simps half_even_def Let_def)
  have w2: "dbl_add (Fin 20) (Fin 10) = Fin 30"
    by (simp add: dbl_add_def, rule double_resultI[where u="(1 / 281474976710656)" and n="8444249301319680"];
        simp add: ulp_def ulp_up.simps ulp_down.simps half_even_def Let_def)
  have w3: "dbl_add (Fin 30) (Fin 10) = Fin 40"
    by (simp add: dbl_add_def, rule double_resultI[where u="(1 / 140737488355328)" and n="5629499534213120"];
        simp add: ulp_def ulp_up.simps ulp_down.simps half_even_def Let_def)
  have w4: "dbl_add (Fin 40) (Fin 10) = Fin 50"
    by (simp add: dbl_add_def, rule double_resultI[where u="(1 / 140737488355328)" and n="7036874417766400"];
        simp add: ulp_def ulp_up.simps ulp_down.simps half_even_def Let_def)
  have w5: "dbl_add (Fin 50) (Fin 10) = Fin 60"
    by (simp add: dbl_add_def, rule double_resultI[where u="(1 / 140737488355328)" and n="8444249301319680"];
        simp add: ulp_def ulp_up.simps ulp_down.simps half_even_def Let_def)
  have w6: "dbl_add (Fin 60) (Fin 10) = Fin 70"
    by (simp add: dbl_add_def, rule double_resultI[where u="(1 / 70368744177664)" and n="4925812092436480"];
        simp add: ulp_def ulp_up.simps ulp_down.simps half_even_def Let_def)
  have w7: "dbl_add (Fin 70) (Fin 10) = Fin 80"
    by (simp add: dbl_add_def, rule double_resultI[where u="(1 / 70368744177664)" and n="5629499534213120"];
        simp add: ulp_def ulp_up.simps ulp_down.simps half_even_def Let_def)
  have w8: "dbl_add (Fin 80) (Fin 10) = Fin 90"
    by (simp add: dbl_add_def, rule double_resultI[where u="(1 / 70368744177664)" and n="6333186975989760"];
        simp add: ulp_def ulp_up.simps ulp_down.simps half_even_def Let_def)
  have w9: "dbl_add (Fin 90) (Fin 10) = Fin 100"
    by (simp add: dbl_add_def, rule double_resultI[where u="(1 / 70368744177664)" and n="7036874417766400"];
        simp add: ulp_def ulp_up.simps ulp_down.simps half_even_def Let_def)
  have w10: "dbl_add (Fin 100) (Fin 10) = Fin 110"
    by (simp add: dbl_add_def, rule double_resultI[where u="(1 / 70368744177664)" and n="7740561859543040"];
        simp add: ulp_def ulp_up.simps ulp_down.simps half_even_def Let_def)
  have w11: "dbl_div (Fin 110) (Fin 10) = Fin 11"
    by (simp add: dbl_div_def, rule double_resultI[where u="(1 / 562949953421312)" and n="6192449487634432"];
        simp add: ulp_def ulp_up.simps ulp_down.simps half_even_def Let_def)
  have w12: "double_of 1.2 = Fin (5404319552844595 / 4503599627370496)"
    by (simp add: double_of_def, rule double_resultI[where u="(1 / 4503599627370496)" and n="5404319552844595"];
        simp add: ulp_def ulp_up.simps ulp_down.simps half_even_def Let_def)
  have w13: "dbl_mul (Fin 11) (Fin (5404319552844595 / 4503599627370496)) = Fin (3715469692580659 / 281474976710656)"
    by (simp add: dbl_mul_def, rule double_resultI[where u="(1 / 562949953421312)" and n="7430939385161318"];
        simp add: ulp_def ulp_up.simps ulp_down.simps half_even_def Let_def)
  note t = detectCycleTimeAnomalies_double_flags[of ?w]
  have sum: "avgCycleTime_double ?w = Fin 11"
    using t[THEN conjunct2, THEN conjunct2]
    by (simp add: sample_fields) (simp only: w1 w2 w3 w4 w5 w6 w7 w8 w9 w10 w11 w12 w13)
  have thr: "dbl_mul (Fin 11) (double_of 1.2) = Fin (3715469692580659 / 281474976710656)"
    by (simp only: w1 w2 w3 w4 w5 w6 w7 w8 w9 w10 w11 w12 w13)
  have hot: "js_gt (actualCycleTime (sample_oee 30 20)) (Fin (3715469692580659 / 281474976710656))"
    by (simp add: sample_fields js_gt_def)
  have cool: "\<not> js_gt (actualCycleTime (sample_oee 30 10)) (Fin (3715469692580659 / 281474976710656))"
    by (simp add: sample_fields js_gt_def)
  have len: "\<not> length ?w < 10" by simp
  have "detectCycleTimeAnomalies_double ?w =
      map (cycleTimeInsight_double (avgCycleTime_double ?w))
        (filter (\<lambda>r. js_gt (actualCycleTime r) (dbl_mul (avgCycleTime_double ?w) (double_of 1.2)))
           (take 7 ?w))"
    using t[THEN conjunct1] len by (simp only: if_False)
  also have "take 7 ?w = [sample_oee 30 20, sample_oee 30 10, sample_oee 30 10, sample_oee 30 10,
        sample_oee 30 10, sample_oee 30 10, sample_oee 30 10]" by simp
  finally have a: "detectCycleTimeAnomalies_double ?w
       = [cycleTimeInsight_double (Fin 11) (sample_oee 30 20)]"
    using hot cool by (simp only: sum thr filter.simps if_True if_False list.map)
  have "cycleTimeInsight_double (Fin 11) (sample_oee 30 20)
          \<in> set (detectCycleTimeAnomalies_double ?w)"
    unfolding a by simp
  with t[THEN conjunct2, THEN conjunct1]
  have "itype (cycleTimeInsight_double (Fin 11) (sample_oee 30 20)) = Anomaly
        \<and> priority (cycleTimeInsight_double (Fin 11) (sample_oee 30 20)) = High"
    by (rule bspec)
  then have k: "itype (cycleTimeInsight_double (Fin 11) (sample_oee 30 20)) = Anomaly"
    and p: "priority (cycleTimeInsight_double (Fin 11) (sample_oee 30 20)) = High"
    by (rule conjunct1, rule conjunct2)
  have "length ?short < 10" by simp
  with detectCycleTimeAnomalies_double_flags[of ?short, THEN conjunct1]
  have b: "detectCycleTimeAnomalies_double ?short = []" by (simp only: if_True)
  show ?thesis by (intro conjI; fact)
qed


subsection \<open>C6: scrap concentration\<close>

text \<open>
  For a non-empty window of defect events with finite quantities whose defect types are
  not names that \<^verbatim>\<open>Object.prototype\<close> defines, the check does what claim C6 says: it
  sums the quantities by defect type and takes a type whose total is the highest; when
  that total exceeds 10 it yields exactly one insight, an opportunity of high priority
  for that type whose scrap reduction is 0.5 times the total, and when the total is at
  most 10 it yields none.
\<close>

lemma detectScrapPatterns_plain_types:
  assumes ne: "scrapData \<noteq> []" and fin: "\<forall>r\<in>set scrapData. js_val (quantity r) \<noteq> None"
    and plain: "\<forall>r\<in>set scrapData. defectType r \<notin> set prototype_members"
  shows "\<exists>top\<in>defectType ` set scrapData.
           (\<forall>t\<in>defectType ` set scrapData. quantity_by_type scrapData t \<le> quantity_by_type scrapData top)
         \<and> detectScrapPatterns scrapData =
             (if 10 < quantity_by_type scrapData top
              then [scrapInsight (top, Fin (quantity_by_type scrapData top))] else [])
         \<and> itype (scrapInsight (top, Fin (quantity_by_type scrapData top))) = Opportunity
         \<and> priority (scrapInsight (top, Fin (quantity_by_type scrapData top))) = High
         \<and> title (scrapInsight (top, Fin (quantity_by_type scrapData top))) = ''High Scrap Rate: '' @ top
         \<and> (10 < quantity_by_type scrapData top \<longrightarrow>
              impact (scrapInsight (top, Fin (quantity_by_type scrapData top)))
                = Some \<lparr> timeSaved = None, impact_costImpact = None,
                         scrapReduction = Some (Fin (0.5 * quantity_by_type scrapData top)) \<rparr>)"
proof -
  let ?E = "object_entries (defectCounts scrapData)"
  have E: "set ?E = (\<lambda>t. (t, Count (Fin (quantity_by_type scrapData t)))) ` defectType ` set scrapData"
    unfolding set_object_entries by (rule defectCounts_entries[OF fin plain])
  have finE: "\<forall>e\<in>set ?E. to_number (snd e) = Fin (mag (to_number (snd e)))"
    unfolding E by (auto simp: to_number_def)
  have neE: "?E \<noteq> []" using E ne by auto
  from top_of_sorted[OF finE neE] obtain top rest where
    s: "sortedDefects scrapData = top # rest" and mem: "top \<in> set ?E"
    and mx: "\<forall>e\<in>set ?E. mag (to_number (snd e)) \<le> mag (to_number (snd top))"
    unfolding sortedDefects_def by blast
  from mem E obtain t where t: "t \<in> defectType ` set scrapData"
    and top: "top = (t, Count (Fin (quantity_by_type scrapData t)))" by auto
  have max: "\<forall>u\<in>defectType ` set scrapData. quantity_by_type scrapData u \<le> quantity_by_type scrapData t"
  proof
    fix u assume "u \<in> defectType ` set scrapData"
    then have "(u, Count (Fin (quantity_by_type scrapData u))) \<in> set ?E" unfolding E by auto
    with mx have "mag (to_number (snd (u, Count (Fin (quantity_by_type scrapData u)))))
                    \<le> mag (to_number (snd top))" by (rule bspec)
    then show "quantity_by_type scrapData u \<le> quantity_by_type scrapData t"
      unfolding top by (simp add: to_number_def)
  qed
  have res: "detectScrapPatterns scrapData =
             (if 10 < quantity_by_type scrapData t
              then [scrapInsight (t, Fin (quantity_by_type scrapData t))] else [])"
    using ne s top by (simp add: detectScrapPatterns_def js_gt_def to_number_def)
  have imp: "10 < quantity_by_type scrapData t \<Longrightarrow>
      impact (scrapInsight (t, Fin (quantity_by_type scrapData t)))
        = Some \<lparr> timeSaved = None, impact_costImpact = None,
                 scrapReduction = Some (Fin (0.5 * quantity_by_type scrapData t)) \<rparr>"
    by (simp add: scrapInsight_def js_mul_def finite_result_def)
  show ?thesis
    using t max res imp by (intro bexI[of _ t]) (simp_all add: scrapInsight_def)
qed


text \<open>
  Claim C6 says this of every non-empty window. The dictionary of the totals is a plain
  object, and for a defect type that \<^verbatim>\<open>Object.prototype\<close> defines, such as
  \<^verbatim>\<open>toString\<close>, the first read finds the inherited function instead of no total, the
  sum becomes a string, and the test against 10 fails: 12 units of such a type, the
  only one of the window, yield no insight.
\<close>

theorem detectScrapPatterns_inherited_type:
  "quantity_by_type [defect_event ''toString'' 12] ''toString'' = 12
   \<and> defectCounts [defect_event ''toString'' 12] = [(''toString'', Text)]
   \<and> detectScrapPatterns [defect_event ''toString'' 12] = []"
proof -
  have plain: "\<not> is_array_index ''toString''" by (simp add: is_array_index_def is_digit_def)
  have a: "quantity_by_type [defect_event ''toString'' 12] ''toString'' = 12"
    by (simp add: quantity_by_type_def defect_event_def)
  have b: "defectCounts [defect_event ''toString'' 12] = [(''toString'', Text)]"
    by (simp add: defectCounts_def defect_event_def add_count_def prototype_members_def)
  have c: "detectScrapPatterns [defect_event ''toString'' 12] = []"
    by (simp add: detectScrapPatterns_def sortedDefects_def b object_entries_def plain
          array_sort_def to_number_def js_gt_def)
  show ?thesis by (intro conjI; fact)
qed


subsection \<open>C7: enrichment is best effort\<close>

text \<open>
  Claim C7: whatever the three queries and the enrichment call do, generateInsights
  returns a list and raises nothing, and so does enhanceWithExternalAI. When the
  enrichment call fails, by a network failure, a status outside 2xx, a response without
  data or a body without the expected field, the result is the list given to it,
  unchanged: for three successful queries, the insights of the cycle-time, scrap and
  downtime checks, in this order.
\<close>

theorem generateInsights_never_fails:
  "(\<exists>r. generateInsights env cycleQuery scrapQuery downtimeQuery outcome = Inr r)
   \<and> (\<exists>r. enhanceWithExternalAI insights outcome = Inr r)
   \<and> (outcome \<in> {NetworkFailure, BadStatus code, Response NoData, Response (Data None)} \<longrightarrow>
        enhanceWithExternalAI insights outcome = Inr insights
        \<and> generateInsights env (Inr cycleData) (Inr scrapData) (Inr downtimeData) outcome
            = Inr (detectCycleTimeAnomalies cycleData @ detectScrapPatterns scrapData
                   @ detectDowntimePatterns downtimeData))"
proof -
  have a: "\<exists>r. generateInsights env cycleQuery scrapQuery downtimeQuery outcome = Inr r"
    by (simp add: generateInsights_def split: prod.splits sum.splits)
  have b: "\<exists>r. enhanceWithExternalAI insights outcome = Inr r"
    by (simp add: enhanceWithExternalAI_def split: sum.splits)
  have c: "enhanceWithExternalAI ins outcome = Inr ins"
    if "outcome \<in> {NetworkFailure, BadStatus code, Response NoData, Response (Data None)}" for ins
    using that by (auto simp: enhanceWithExternalAI_def enhanceWithExternalAI_try_def)
  have d: "generateInsights env (Inr cycleData) (Inr scrapData) (Inr downtimeData) outcome
            = Inr (detectCycleTimeAnomalies cycleData @ detectScrapPatterns scrapData
                   @ detectDowntimePatterns downtimeData)"
    if "outcome \<in> {NetworkFailure, BadStatus code, Response NoData, Response (Data None)}"
    using c[OF that] by (simp add: generateInsights_def generateInsights_try_def Let_def)
  show ?thesis using a b c d by blast
qed

theorem generateInsights_never_fails_witness:
  "BadStatus 503 \<in> {NetworkFailure, BadStatus 503, Response NoData, Response (Data None)}
   \<and> enhanceWithExternalAI [downtimeInsight (sample_oee 80 2)] (BadStatus 503)
       = Inr [downtimeInsight (sample_oee 80 2)]
   \<and> generateInsights configured_env (Inr []) (Inr [defect_event ''B'' 12])
        (Inr [sample_oee 80 2]) (BadStatus 503)
       = Inr [scrapInsight (''B'', Fin 12), downtimeInsight (sample_oee 80 2)]"
proof -
  have h: "BadStatus 503 \<in> {NetworkFailure, BadStatus 503, Response NoData, Response (Data None)}"
    by simp
  note t = generateInsights_never_fails[of configured_env "Inr []" "Inr [defect_event ''B'' 12]"
      "Inr [sample_oee 80 2]" "BadStatus 503" "[downtimeInsight (sample_oee 80 2)]" 503
      "[]" "[defect_event ''B'' 12]" "[sample_oee 80 2]"]
  note t3 = t[THEN conjunct2, THEN conjunct2, THEN mp, OF h]
  have c: "detectCycleTimeAnomalies [] = []" by (simp add: detectCycleTimeAnomalies_def)
  have s: "detectScrapPatterns [defect_event ''B'' 12] = [scrapInsight (''B'', Fin 12)]"
    by (simp add: detectScrapPatterns_def defect_event_def sortedDefects_def defectCounts_def
          add_count_def prototype_members_def object_entries_def is_array_index_def is_digit_def
          to_number_def array_sort_def or_default_def js_gt_def js_add_def)
  have d: "detectDowntimePatterns [sample_oee 80 2] = [downtimeInsight (sample_oee 80 2)]"
    by (simp add: detectDowntimePatterns_def downtimePercent_def sample_oee_def
          js_gt_def js_mul_def js_div_def finite_result_def)
  have a: "enhanceWithExternalAI [downtimeInsight (sample_oee 80 2)] (BadStatus 503)
       = Inr [downtimeInsight (sample_oee 80 2)]"
    by (rule t3[THEN conjunct1])
  have b: "generateInsights configured_env (Inr []) (Inr [defect_event ''B'' 12])
        (Inr [sample_oee 80 2]) (BadStatus 503)
       = Inr [scrapInsight (''B'', Fin 12), downtimeInsight (sample_oee 80 2)]"
    using t3[THEN conjunct2] by (simp only: c s d append.simps)
  show ?thesis by (intro conjI; fact)
qed


subsection \<open>C8: marking a notification as read\<close>

text \<open>
  Claim C8: markAsRead has no failing case. It leaves the mailboxes as they are when the
  user has none, when no notification of the user has the id, and when the notification
  found is already read. When the user's mailbox has a notification with the id, the
  first such notification has its read flag set to true, and nothing else changes: not
  its other fields, not the other notifications of the mailbox, not the mailboxes of the
  other users. Repeating the call changes nothing further.
\<close>

theorem markAsRead_noop_and_idempotent:
  "(notifications userId = None \<longrightarrow> markAsRead notifications userId notificationId = notifications)
   \<and> (notifications userId = Some ns \<and> notificationId \<notin> n_id ` set ns \<longrightarrow>
        markAsRead notifications userId notificationId = notifications)
   \<and> (notifications userId = Some ns \<and> find (\<lambda>n. n_id n = notificationId) ns = Some n \<and> read n \<longrightarrow>
        markAsRead notifications userId notificationId = notifications)
   \<and> (notifications userId = Some ns \<and> find (\<lambda>n. n_id n = notificationId) ns = Some n \<longrightarrow>
        (\<exists>i<length ns. ns ! i = n \<and> (\<forall>j<i. n_id (ns ! j) \<noteq> notificationId)
           \<and> markAsRead notifications userId notificationId
               = notifications(userId \<mapsto> ns[i := n\<lparr>read := True\<rparr>])))
   \<and> (other \<noteq> userId \<longrightarrow> markAsRead notifications userId notificationId other = notifications other)
   \<and> (notifications userId = Some ns \<longrightarrow>
        (\<exists>ms. markAsRead notifications userId notificationId userId = Some ms
              \<and> length ms = length ns
              \<and> (\<forall>i<length ns. ms ! i = ns ! i
                    \<or> (n_id (ns ! i) = notificationId \<and> ms ! i = (ns ! i)\<lparr>read := True\<rparr>))))
   \<and> markAsRead (markAsRead notifications userId notificationId) userId notificationId
        = markAsRead notifications userId notificationId"
proof -
  have a: "notifications userId = None \<longrightarrow> markAsRead notifications userId notificationId = notifications"
    by (simp add: markAsRead_def)
  have b: "notifications userId = Some ns \<and> notificationId \<notin> n_id ` set ns \<longrightarrow>
        markAsRead notifications userId notificationId = notifications"
    by (auto simp: markAsRead_def mark_first_absent)
  have c: "notifications userId = Some ns \<and> find (\<lambda>n. n_id n = notificationId) ns = Some n \<and> read n \<longrightarrow>
        markAsRead notifications userId notificationId = notifications"
    by (auto simp: markAsRead_def mark_first_read)
  have g: "\<exists>i<length ns. ns ! i = n \<and> (\<forall>j<i. n_id (ns ! j) \<noteq> notificationId)
           \<and> markAsRead notifications userId notificationId
               = notifications(userId \<mapsto> ns[i := n\<lparr>read := True\<rparr>])"
    if "notifications userId = Some ns \<and> find (\<lambda>n. n_id n = notificationId) ns = Some n"
  proof -
    from that have u: "notifications userId = Some ns"
      and f: "find (\<lambda>n. n_id n = notificationId) ns = Some n" by simp_all
    from mark_first_find[OF f] obtain i where i: "i < length ns" "ns ! i = n"
      "\<forall>j<i. n_id (ns ! j) \<noteq> notificationId"
      "mark_first notificationId ns = ns[i := n\<lparr>read := True\<rparr>]" by blast
    have "markAsRead notifications userId notificationId
               = notifications(userId \<mapsto> ns[i := n\<lparr>read := True\<rparr>])"
      using u i(4) by (simp add: markAsRead_def)
    with i show ?thesis by blast
  qed
  have d: "other \<noteq> userId \<longrightarrow> markAsRead notifications userId notificationId other = notifications other"
    by (simp add: markAsRead_def split: option.splits)
  have e: "notifications userId = Some ns \<longrightarrow>
        (\<exists>ms. markAsRead notifications userId notificationId userId = Some ms
              \<and> length ms = length ns
              \<and> (\<forall>i<length ns. ms ! i = ns ! i
                    \<or> (n_id (ns ! i) = notificationId \<and> ms ! i = (ns ! i)\<lparr>read := True\<rparr>)))"
    using mark_first_nth[of _ ns notificationId]
    by (auto simp: markAsRead_def mark_first_length)
  have f: "markAsRead (markAsRead notifications userId notificationId) userId notificationId
        = markAsRead notifications userId notificationId"
    by (cases "notifications userId") (simp_all add: markAsRead_def mark_first_idem)
  show ?thesis using a b c g d e f by blast
qed

theorem markAsRead_noop_and_idempotent_witness:
  "sample_mailbox ''u2'' = None
   \<and> markAsRead sample_mailbox ''u2'' ''a'' = sample_mailbox
   \<and> sample_mailbox ''u1'' = Some [note_of ''a'' False, note_of ''b'' True, note_of ''c'' False]
   \<and> ''zz'' \<notin> n_id ` set [note_of ''a'' False, note_of ''b'' True, note_of ''c'' False]
   \<and> markAsRead sample_mailbox ''u1'' ''zz'' = sample_mailbox
   \<and> find (\<lambda>n. n_id n = ''b'') [note_of ''a'' False, note_of ''b'' True, note_of ''c'' False]
       = Some (note_of ''b'' True)
   \<and> read (note_of ''b'' True)
   \<and> markAsRead sample_mailbox ''u1'' ''b'' = sample_mailbox
   \<and> find (\<lambda>n. n_id n = ''c'') [note_of ''a'' False, note_of ''b'' True, note_of ''c'' False]
       = Some (note_of ''c'' False)
   \<and> markAsRead sample_mailbox ''u1'' ''c''
       = sample_mailbox(''u1'' \<mapsto> [note_of ''a'' False, note_of ''b'' True, note_of ''c'' True])
   \<and> markAsRead (markAsRead sample_mailbox ''u1'' ''c'') ''u1'' ''c''
       = markAsRead sample_mailbox ''u1'' ''c''"
proof -
  let ?ns = "[note_of ''a'' False, note_of ''b'' True, note_of ''c'' False]"
  have u2: "sample_mailbox ''u2'' = None" by (simp add: sample_mailbox_def)
  have u1: "sample_mailbox ''u1'' = Some ?ns" by (simp add: sample_mailbox_def)
  have zz: "''zz'' \<notin> n_id ` set ?ns" by (simp add: note_of_def)
  have fb: "find (\<lambda>n. n_id n = ''b'') ?ns = Some (note_of ''b'' True)" by (simp add: note_of_def)
  have rb: "read (note_of ''b'' True)" by (simp add: note_of_def)
  have fc: "find (\<lambda>n. n_id n = ''c'') ?ns = Some (note_of ''c'' False)" by (simp add: note_of_def)
  have a: "markAsRead sample_mailbox ''u2'' ''a'' = sample_mailbox"
    using markAsRead_noop_and_idempotent[of sample_mailbox "''u2''" "''a''" ?ns "note_of ''b'' True" "''u1''",
        THEN conjunct1] u2 by (rule mp)
  have b: "markAsRead sample_mailbox ''u1'' ''zz'' = sample_mailbox"
    using markAsRead_noop_and_idempotent[of sample_mailbox "''u1''" "''zz''" ?ns "note_of ''b'' True" "''u2''",
        THEN conjunct2, THEN conjunct1] conjI[OF u1 zz] by (rule mp)
  have c: "markAsRead sample_mailbox ''u1'' ''b'' = sample_mailbox"
    using markAsRead_noop_and_idempotent[of sample_mailbox "''u1''" "''b''" ?ns "note_of ''b'' True" "''u2''",
        THEN conjunct2, THEN conjunct2, THEN conjunct1] conjI[OF u1 conjI[OF fb rb]] by (rule mp)
  from markAsRead_noop_and_idempotent[of sample_mailbox "''u1''" "''c''" ?ns "note_of ''c'' False" "''u2''",
        THEN conjunct2, THEN conjunct2, THEN conjunct2, THEN conjunct1, THEN mp, OF conjI[OF u1 fc]]
  obtain i where i: "i < length ?ns" "?ns ! i = note_of ''c'' False"
    and upd: "markAsRead sample_mailbox ''u1'' ''c''
               = sample_mailbox(''u1'' \<mapsto> ?ns[i := (note_of ''c'' False)\<lparr>read := True\<rparr>])"
    by blast
  from i have "i = 0 \<or> i = 1 \<or> i = 2" by auto
  with i(2) have i2: "i = 2" by (auto simp: note_of_def)
  have cT: "(note_of ''c'' False)\<lparr>read := True\<rparr> = note_of ''c'' True" by (simp add: note_of_def)
  have d: "markAsRead sample_mailbox ''u1'' ''c''
       = sample_mailbox(''u1'' \<mapsto> [note_of ''a'' False, note_of ''b'' True, note_of ''c'' True])"
    using upd unfolding i2 cT by simp
  have e: "markAsRead (markAsRead sample_mailbox ''u1'' ''c'') ''u1'' ''c''
       = markAsRead sample_mailbox ''u1'' ''c''"
    by (rule markAsRead_noop_and_idempotent[of sample_mailbox "''u1''" "''c''" ?ns "note_of ''b'' True" "''u2''",
        THEN conjunct2, THEN conjunct2, THEN conjunct2, THEN conjunct2, THEN conjunct2, THEN conjunct2])
  show ?thesis by (intro conjI; fact)
qed


subsection \<open>C9: falsy parameters take their defaults\<close>

text \<open>
  Claim C9: a simulation request with cycle time adjustment 0 has the result of the same
  request with adjustment 1, and a request with shift length 0 has the result of the
  same request with shift length 8.
\<close>

theorem runSimulation_falsy_defaults:
  "runSimulation found (params\<lparr>cycleTimeAdjustment := Some (Fin 0)\<rparr>)
     = runSimulation found (params\<lparr>cycleTimeAdjustment := Some (Fin 1)\<rparr>)
   \<and> runSimulation found (params\<lparr>shiftLength := Some (Fin 0)\<rparr>)
     = runSimulation found (params\<lparr>shiftLength := Some (Fin 8)\<rparr>)"
  by (cases found)
     (simp_all add: runSimulation_def predictedCycleTime_def cycleTimeMultiplier_def
        or_default_def truthy_def)

theorem runSimulation_falsy_defaults_witness:
  "runSimulation (Some (sample_oee 30 2)) ((sim_request 8 1)\<lparr>cycleTimeAdjustment := Some (Fin 0)\<rparr>)
     = Inr \<lparr> predictedThroughput = Fin 213.75, predictedScrap = Fin 11.25,
             predictedOEE = Fin 68, costImpact = Fin 562.5 \<rparr>
   \<and> runSimulation (Some (sample_oee 30 2)) ((sim_request 8 1)\<lparr>shiftLength := Some (Fin 0)\<rparr>)
     = Inr \<lparr> predictedThroughput = Fin 213.75, predictedScrap = Fin 11.25,
             predictedOEE = Fin 68, costImpact = Fin 562.5 \<rparr>"
proof -
  have same: "(sim_request 8 1)\<lparr>cycleTimeAdjustment := Some (Fin 1)\<rparr> = sim_request 8 1"
    "(sim_request 8 1)\<lparr>shiftLength := Some (Fin 8)\<rparr> = sim_request 8 1"
    by (simp_all add: sim_request_def)
  have val: "runSimulation (Some (sample_oee 30 2)) (sim_request 8 1)
     = Inr \<lparr> predictedThroughput = Fin 213.75, predictedScrap = Fin 11.25,
             predictedOEE = Fin 68, costImpact = Fin 562.5 \<rparr>"
    by (simp add: runSimulation_def predictedCycleTime_def cycleTimeMultiplier_def sample_oee_def
          sim_request_def or_default_def truthy_def js_le_def js_mul_def js_div_def js_sub_def
          js_add_def finite_result_def)
  note t = runSimulation_falsy_defaults[of "Some (sample_oee 30 2)" "sim_request 8 1", unfolded same val]
  show ?thesis by (rule t)
qed


subsection \<open>C10: the unguarded division of calculatePerformance\<close>

text \<open>
  Claim C10: calculatePerformance returns 0 when the ideal cycle time or the unit count
  is 0. When both are finite and not 0 and the actual cycle time is a zero, nothing
  guards the division and the result is an infinity; when the actual cycle time is
  finite and not 0 as well, the result is the finite number
  ideal * units / (actual * units) * 100.
\<close>

theorem calculatePerformance_guard:
  "(js_eq i (Fin 0) \<or> js_eq t (Fin 0) \<longrightarrow> calculatePerformance i a t = Fin 0)
   \<and> (js_val i = Some iv \<and> iv \<noteq> 0 \<and> js_val t = Some tv \<and> tv \<noteq> 0 \<and> is_zero a
        \<longrightarrow> is_inf (calculatePerformance i a t))
   \<and> (js_val i = Some iv \<and> iv \<noteq> 0 \<and> js_val t = Some tv \<and> tv \<noteq> 0
        \<and> js_val a = Some av \<and> av \<noteq> 0
        \<longrightarrow> calculatePerformance i a t = Fin (iv * tv / (av * tv) * 100))"
  by (cases i; cases t; cases a)
     (auto simp: calculatePerformance_def Let_def js_mul_def js_div_def finite_result_def
        signed_zero_def signed_inf_def)

theorem calculatePerformance_guard_witness:
  "js_eq (Fin 0) (Fin 0)
   \<and> calculatePerformance (Fin 0) (Fin 4) (Fin 10) = Fin 0
   \<and> js_val (Fin 2) = Some 2 \<and> js_val (Fin 10) = Some 10 \<and> is_zero (Fin 0)
   \<and> is_inf (calculatePerformance (Fin 2) (Fin 0) (Fin 10))
   \<and> js_val (Fin 4) = Some 4
   \<and> calculatePerformance (Fin 2) (Fin 4) (Fin 10) = Fin 50"
  using calculatePerformance_guard[of "Fin 0" "Fin 10" "Fin 4" 2 10 4]
    calculatePerformance_guard[of "Fin 2" "Fin 10" "Fin 0" 2 10 4]
    calculatePerformance_guard[of "Fin 2" "Fin 10" "Fin 4" 2 10 4]
  by simp

end
